theory Spec2Isabelle
  imports Complex_Main
begin

section \<open>Python values, exceptions and arrays\<close>

text \<open>
  The exceptions the modelled code can raise. \<open>QueueEmpty\<close> is \<^verbatim>\<open>queue.Empty\<close>;
  every other constructor is the builtin of the same name.
\<close>

datatype py_exn =
  QueueEmpty | ZeroDivisionError | AttributeError | IndexError | ValueError | TypeError | KeyError
  | OverflowError

text \<open>
  A method that mutates \<^verbatim>\<open>self\<close> and may raise leaves its mutations behind when it
  raises, so both outcomes carry the state the object is left in.
\<close>

datatype 's outcome = Returned 's | Raised py_exn 's

fun state_of :: "'s outcome \<Rightarrow> 's" where
  "state_of (Returned s) = s"
| "state_of (Raised ex s) = s"

text \<open>
  A numpy array: its shape tuple and its elements in row-major order. Samples
  (\<^verbatim>\<open>float32\<close> in the source) are idealised as reals: rounding, infinities and NaN are
  outside the model.
\<close>

record ndarray =
  shape :: "nat list"
  data :: "real list"

definition wf_array :: "ndarray \<Rightarrow> bool" where
  "wf_array a = (length (data a) = prod_list (shape a))"

text \<open>\<^verbatim>\<open>a.shape[i]\<close>: indexing the shape tuple out of range raises IndexError.\<close>

definition shape_index :: "ndarray \<Rightarrow> nat \<Rightarrow> py_exn + nat" where
  "shape_index a i = (if i < length (shape a) then Inr (shape a ! i) else Inl IndexError)"

text \<open>\<^verbatim>\<open>a.fill(0)\<close>\<close>

definition np_fill0 :: "ndarray \<Rightarrow> ndarray" where
  "np_fill0 a = a\<lparr>data := replicate (length (data a)) 0\<rparr>"

text \<open>\<^verbatim>\<open>a * v\<close> for a scalar \<open>v\<close>\<close>

definition np_mul_scalar :: "ndarray \<Rightarrow> real \<Rightarrow> ndarray" where
  "np_mul_scalar a v = a\<lparr>data := map (\<lambda>x. x * v) (data a)\<rparr>"

text \<open>
  \<^verbatim>\<open>dst[:] = src\<close>. numpy strips unit dimensions from the left of a source that has
  more dimensions than the destination, pads a shorter shape with unit dimensions on
  the left, and then needs every source dimension to equal the destination's or to be
  1; otherwise it raises ValueError before anything is written.
\<close>

fun strip_leading_ones :: "nat \<Rightarrow> nat list \<Rightarrow> nat list" where
  "strip_leading_ones n [] = []"
| "strip_leading_ones n (d # ds) =
     (if n < length (d # ds) \<and> d = 1 then strip_leading_ones n ds else d # ds)"

fun broadcastable :: "nat list \<Rightarrow> nat list \<Rightarrow> bool" where
  "broadcastable [] [] = True"
| "broadcastable (s # ss) (t # ts) = ((s = t \<or> s = 1) \<and> broadcastable ss ts)"
| "broadcastable _ _ = False"

fun broadcast_data :: "nat list \<Rightarrow> nat list \<Rightarrow> real list \<Rightarrow> real list" where
  "broadcast_data (s # ss) (t # ts) d =
     (if s = t
      then concat (map (\<lambda>i. broadcast_data ss ts (take (prod_list ss) (drop (i * prod_list ss) d)))
                       [0..<s])
      else concat (replicate t (broadcast_data ss ts d)))"
| "broadcast_data _ _ d = d"

definition np_assign_all :: "ndarray \<Rightarrow> ndarray \<Rightarrow> py_exn + ndarray" where
  "np_assign_all dst src =
     (let n = length (shape dst);
          s = strip_leading_ones n (shape src);
          p = replicate (n - length s) 1 @ s
      in if length s \<le> n \<and> broadcastable p (shape dst)
         then Inr (dst\<lparr>data := broadcast_data p (shape dst) (data src)\<rparr>)
         else Inl ValueError)"

section \<open>AudioEngine: the realtime output callback\<close>

text \<open>
  What \<^verbatim>\<open>stream_output_queue\<close> can hold: the producer is expected to put blocks, and
  the callback's own log line allows for \<^verbatim>\<open>None\<close>.
\<close>

datatype queued = NoneObj | Block ndarray

record audio_engine =
  volume :: real
  is_muted :: bool
  previous_volume_before_mute :: real
  engine_sample_rate :: int
  engine_channels :: int
  block_size :: int
  stream_output_queue :: "queued list"

text \<open>\<^verbatim>\<open>AudioEngine.__init__\<close>, the fields the callback reads.\<close>

definition AudioEngine_init :: audio_engine where
  "AudioEngine_init =
     \<lparr>volume = 7 / 10, is_muted = False, previous_volume_before_mute = 7 / 10,
      engine_sample_rate = 44100, engine_channels = 2, block_size = 1024,
      stream_output_queue = []\<rparr>"

text \<open>\<^verbatim>\<open>effective_volume = self.volume if not self.is_muted else 0.0\<close>\<close>

definition effective_volume :: "audio_engine \<Rightarrow> real" where
  "effective_volume e = (if \<not> is_muted e then volume e else 0)"

text \<open>
  The \<^verbatim>\<open>else\<close> branch of the shape test: \<^verbatim>\<open>outdata.fill(0)\<close>, then a log line whose
  f-string reads \<^verbatim>\<open>outdata.shape[1]\<close>.
\<close>

definition mismatch_branch :: "ndarray \<Rightarrow> py_exn + ndarray" where
  "mismatch_branch outdata =
     (case shape_index outdata 1 of
        Inl ex \<Rightarrow> Inl ex
      | Inr oc \<Rightarrow> Inr (np_fill0 outdata))"

text \<open>
  The statements after \<^verbatim>\<open>block = ...get(...)\<close> for an array block:
  \<^verbatim>\<open>if block.shape[0] == frames and block.shape[1] == outdata.shape[1]\<close> (the second
  comparison only evaluated when the first holds), then
  \<^verbatim>\<open>outdata[:] = block * effective_volume\<close>.
\<close>

definition write_block :: "audio_engine \<Rightarrow> ndarray \<Rightarrow> ndarray \<Rightarrow> int \<Rightarrow> py_exn + ndarray" where
  "write_block e block outdata frames =
     (case shape_index block 0 of
        Inl ex \<Rightarrow> Inl ex
      | Inr f \<Rightarrow>
          if int f = frames then
            (case shape_index block 1 of
               Inl ex \<Rightarrow> Inl ex
             | Inr c \<Rightarrow>
                 (case shape_index outdata 1 of
                    Inl ex \<Rightarrow> Inl ex
                  | Inr oc \<Rightarrow>
                      if c = oc then np_assign_all outdata (np_mul_scalar block (effective_volume e))
                      else mismatch_branch outdata))
          else mismatch_branch outdata)"

text \<open>
  The body of the \<^verbatim>\<open>try\<close>. The timeout \<^verbatim>\<open>max(0.001, block_size / sample_rate * 0.5)\<close>
  is computed first and divides by the sample rate; then \<^verbatim>\<open>get\<close> takes the head of the
  queue or raises \<^verbatim>\<open>queue.Empty\<close> when the queue stayed empty for the whole timeout.
  \<^verbatim>\<open>block.shape\<close> on \<^verbatim>\<open>None\<close> is an AttributeError.
\<close>

definition sounddevice_callback_try ::
    "audio_engine \<Rightarrow> ndarray \<Rightarrow> int \<Rightarrow> (py_exn + ndarray) \<times> audio_engine" where
  "sounddevice_callback_try e outdata frames =
     (if engine_sample_rate e = 0 then (Inl ZeroDivisionError, e)
      else case stream_output_queue e of
             [] \<Rightarrow> (Inl QueueEmpty, e)
           | item # rest \<Rightarrow>
               (case item of
                  NoneObj \<Rightarrow> Inl AttributeError
                | Block block \<Rightarrow> write_block e block outdata frames,
                e\<lparr>stream_output_queue := rest\<rparr>))"

text \<open>
  \<^verbatim>\<open>AudioEngine._sounddevice_callback\<close>: the \<^verbatim>\<open>try\<close> with its two handlers,
  \<^verbatim>\<open>except queue.Empty\<close> and \<^verbatim>\<open>except Exception\<close>, both \<^verbatim>\<open>outdata.fill(0)\<close>. The
  \<^verbatim>\<open>status\<close> and \<^verbatim>\<open>time_info\<close> arguments only feed the logger and are left out.
  The result is the new content of \<^verbatim>\<open>outdata\<close> and the engine with its queue.
\<close>

definition sounddevice_callback ::
    "audio_engine \<Rightarrow> ndarray \<Rightarrow> int \<Rightarrow> py_exn + (ndarray \<times> audio_engine)" where
  "sounddevice_callback e outdata frames =
     (case sounddevice_callback_try e outdata frames of
        (Inr out, e') \<Rightarrow> Inr (out, e')
      | (Inl QueueEmpty, e') \<Rightarrow> Inr (np_fill0 outdata, e')
      | (Inl ex, e') \<Rightarrow> Inr (np_fill0 outdata, e'))"

text \<open>
  \<^verbatim>\<open>AudioEngine.set_volume\<close> and \<^verbatim>\<open>AudioEngine.toggle_mute\<close>: in the source the body
  of each is \<^verbatim>\<open>pass\<close> (with the comment "As before"), so neither changes the engine.
\<close>

definition set_volume :: "real \<Rightarrow> audio_engine \<Rightarrow> audio_engine" where
  "set_volume volume_float e = e"

definition toggle_mute :: "audio_engine \<Rightarrow> audio_engine" where
  "toggle_mute e = e"

section \<open>Audio effects\<close>

text \<open>
  Parameter values are \<^verbatim>\<open>Any\<close> in the source. The model has \<^verbatim>\<open>None\<close>, booleans,
  integers and finite floats (as reals); strings, containers, infinities and NaN are
  outside it.
  \<open>py_num\<close> is the number a value stands for in a comparison or a conversion.
\<close>

datatype pyval = PyNone | PyBool bool | PyInt int | PyFloat real

fun py_num :: "pyval \<Rightarrow> real option" where
  "py_num PyNone = None"
| "py_num (PyBool b) = Some (if b then 1 else 0)"
| "py_num (PyInt i) = Some (of_int i)"
| "py_num (PyFloat r) = Some r"

text \<open>\<^verbatim>\<open>a != b\<close>: numbers compare by value across the numeric types, \<^verbatim>\<open>None\<close> equals only itself.\<close>

definition py_ne :: "pyval \<Rightarrow> pyval \<Rightarrow> bool" where
  "py_ne a b = (py_num a \<noteq> py_num b)"

text \<open>
  The least magnitude that rounds to infinity as a double: half a unit in the last
  place above the largest finite double. Python raises OverflowError for a conversion
  or a power of at least this magnitude; rounding below it is not modelled.
\<close>

definition float_overflow :: real where
  "float_overflow = 2 ^ 1024 - 2 ^ 970"

text \<open>
  \<^verbatim>\<open>float(v)\<close>: a TypeError on \<^verbatim>\<open>None\<close>, an OverflowError on an integer too large
  for a double. A finite float is below the bound already, so the test only ever fails
  for an integer.
\<close>

definition py_float :: "pyval \<Rightarrow> py_exn + real" where
  "py_float v =
     (case py_num v of
        None \<Rightarrow> Inl TypeError
      | Some r \<Rightarrow> if float_overflow \<le> \<bar>r\<bar> then Inl OverflowError else Inr r)"

text \<open>\<^verbatim>\<open>10 ** y\<close> for a float \<open>y\<close>: an OverflowError when the power is too large for a double.\<close>

definition py_pow10 :: "real \<Rightarrow> py_exn + real" where
  "py_pow10 y = (if float_overflow \<le> 10 powr y then Inl OverflowError else Inr (10 powr y))"

text \<open>\<^verbatim>\<open>int(v)\<close>: a TypeError on \<^verbatim>\<open>None\<close>, truncation towards zero on a float.\<close>

fun py_int :: "pyval \<Rightarrow> py_exn + int" where
  "py_int PyNone = Inl TypeError"
| "py_int (PyBool b) = Inr (if b then 1 else 0)"
| "py_int (PyInt i) = Inr i"
| "py_int (PyFloat r) = Inr (if 0 \<le> r then \<lfloor>r\<rfloor> else \<lceil>r\<rceil>)"

text \<open>
  The fields of \<^verbatim>\<open>AudioEffect\<close>. A subclass extends the record; the base-class methods
  below work on every extension. Logging is not modelled.
\<close>

record effect =
  name :: string
  enabled :: bool
  bypass :: bool
  parameters :: "string \<rightharpoonup> pyval"
  sample_rate :: int
  channels :: int

text \<open>\<^verbatim>\<open>AudioEffect.__init__\<close>\<close>

definition AudioEffect_init :: "string \<Rightarrow> effect" where
  "AudioEffect_init nm =
     \<lparr>name = nm, enabled = True, bypass = False, parameters = Map.empty,
      sample_rate = 44100, channels = 2\<rparr>"

text \<open>The base class's \<^verbatim>\<open>_on_parameter_change\<close> and \<^verbatim>\<open>reset\<close>: both \<^verbatim>\<open>pass\<close>.\<close>

definition AudioEffect_on_parameter_change ::
    "string \<Rightarrow> pyval \<Rightarrow> 'a effect_scheme \<Rightarrow> 'a effect_scheme outcome" where
  "AudioEffect_on_parameter_change nm v e = Returned e"

definition AudioEffect_reset :: "'a effect_scheme \<Rightarrow> 'a effect_scheme outcome" where
  "AudioEffect_reset e = Returned e"

text \<open>
  \<^verbatim>\<open>AudioEffect.set_stream_properties\<close>. The two methods it calls on \<^verbatim>\<open>self\<close> are
  dispatched on the object's class, so they are arguments here: the subclass's
  \<^verbatim>\<open>_on_parameter_change\<close> and \<^verbatim>\<open>reset\<close>.
\<close>

definition set_stream_properties ::
    "(string \<Rightarrow> pyval \<Rightarrow> 'a effect_scheme \<Rightarrow> 'a effect_scheme outcome) \<Rightarrow>
     ('a effect_scheme \<Rightarrow> 'a effect_scheme outcome) \<Rightarrow>
     int \<Rightarrow> int \<Rightarrow> 'a effect_scheme \<Rightarrow> 'a effect_scheme outcome" where
  "set_stream_properties on_parameter_change reset sr ch e =
     (let (e1, needs1) = (if sample_rate e \<noteq> sr then (e\<lparr>sample_rate := sr\<rparr>, True) else (e, False));
          (e2, needs_reinit) = (if channels e1 \<noteq> ch then (e1\<lparr>channels := ch\<rparr>, True) else (e1, needs1))
      in if needs_reinit
         then (case on_parameter_change ''_stream_props_changed'' PyNone e2 of
                 Raised ex s \<Rightarrow> Raised ex s
               | Returned s \<Rightarrow> reset s)
         else Returned e2)"

text \<open>\<^verbatim>\<open>audio_block.shape[1] if audio_block.ndim == 2 else 1\<close>\<close>

definition input_block_channels :: "ndarray \<Rightarrow> nat" where
  "input_block_channels a = (if length (shape a) = 2 then shape a ! 1 else 1)"

text \<open>\<^verbatim>\<open>a[:, np.newaxis]\<close>: a new axis of length 1 after the first; IndexError on a 0-d array.\<close>

definition np_newaxis1 :: "ndarray \<Rightarrow> py_exn + ndarray" where
  "np_newaxis1 a =
     (case shape a of
        [] \<Rightarrow> Inl IndexError
      | n # rest \<Rightarrow> Inr (a\<lparr>shape := n # 1 # rest\<rparr>))"

text \<open>
  \<^verbatim>\<open>np.tile(a, (1, c))\<close>: an array of fewer than two dimensions is promoted with unit
  dimensions on the left, the repetitions of an array of more are \<open>(1, ..., 1, c)\<close>; so
  the last axis is repeated \<open>c\<close> times.
\<close>

definition np_tile_last :: "ndarray \<Rightarrow> nat \<Rightarrow> ndarray" where
  "np_tile_last a c =
     (let s = (if length (shape a) < 2 then replicate (2 - length (shape a)) 1 @ shape a
               else shape a);
          m = last s;
          k = prod_list (butlast s)
      in \<lparr>shape = butlast s @ [m * c],
          data = concat (map (\<lambda>i. concat (replicate c (take m (drop (i * m) (data a))))) [0..<k])\<rparr>)"

text \<open>
  \<^verbatim>\<open>np.mean(a, axis=1, keepdims=True)\<close> on a 2-d array, the only kind
  \<open>process_block\<close> applies it to; other arrays are returned as they are.
\<close>

definition np_mean_axis1_keepdims :: "ndarray \<Rightarrow> ndarray" where
  "np_mean_axis1_keepdims a =
     (case shape a of
        [n, c] \<Rightarrow>
          \<lparr>shape = [n, 1],
           data = map (\<lambda>i. sum_list (take c (drop (i * c) (data a))) / real c) [0..<n]\<rparr>
      | _ \<Rightarrow> a)"

text \<open>\<^verbatim>\<open>AudioEffect.process_block\<close> (\<^verbatim>\<open>astype\<close> to the block's own dtype changes nothing).\<close>

definition process_block :: "'a effect_scheme \<Rightarrow> ndarray \<Rightarrow> py_exn + ndarray" where
  "process_block e audio_block =
     (if bypass e \<or> \<not> enabled e then Inr audio_block
      else
        let ibc = int (input_block_channels audio_block) in
        if ibc = channels e then Inr audio_block
        else if ibc = 1 \<and> channels e = 2 then
          (case np_newaxis1 audio_block of
             Inl ex \<Rightarrow> Inl ex
           | Inr a \<Rightarrow> Inr (np_tile_last a (nat (channels e))))
        else if ibc = 2 \<and> channels e = 1 then Inr (np_mean_axis1_keepdims audio_block)
        else Inr audio_block)"

text \<open>
  \<^verbatim>\<open>AudioEffect.set_parameter\<close>, with the subclass's \<^verbatim>\<open>_on_parameter_change\<close> as an
  argument. The parameter is written before the handler runs.
\<close>

definition set_parameter ::
    "(string \<Rightarrow> pyval \<Rightarrow> 'a effect_scheme \<Rightarrow> 'a effect_scheme outcome) \<Rightarrow>
     string \<Rightarrow> pyval \<Rightarrow> 'a effect_scheme \<Rightarrow> 'a effect_scheme outcome" where
  "set_parameter on_parameter_change nm v e =
     (case parameters e nm of
        Some old \<Rightarrow>
          if py_ne old v
          then on_parameter_change nm v (e\<lparr>parameters := (parameters e)(nm \<mapsto> v)\<rparr>)
          else Returned e
      | None \<Rightarrow> Returned e)"

text \<open>A caller making one \<^verbatim>\<open>set_parameter\<close> call per value, going on after a call that raised.\<close>

fun set_parameter_seq ::
    "(string \<Rightarrow> pyval \<Rightarrow> 'a effect_scheme \<Rightarrow> 'a effect_scheme outcome) \<Rightarrow>
     string \<Rightarrow> pyval list \<Rightarrow> 'a effect_scheme \<Rightarrow> 'a effect_scheme" where
  "set_parameter_seq on_parameter_change nm [] e = e"
| "set_parameter_seq on_parameter_change nm (v # vs) e =
     set_parameter_seq on_parameter_change nm vs (state_of (set_parameter on_parameter_change nm v e))"

subsection \<open>GainEffect\<close>

record gain_effect = effect +
  gain_linear :: real

text \<open>
  \<^verbatim>\<open>GainEffect._on_parameter_change\<close>: \<^verbatim>\<open>float(value)\<close>, then the write of the float
  into the mapping, then \<^verbatim>\<open>10 ** (gain_val_db / 20.0)\<close>; each of the two computations
  can raise, and what was written before stays written.
\<close>

definition gain_on_parameter_change :: "string \<Rightarrow> pyval \<Rightarrow> gain_effect \<Rightarrow> gain_effect outcome" where
  "gain_on_parameter_change nm v e =
     (if nm = ''gain_db'' then
        (case py_float v of
           Inl ex \<Rightarrow> Raised ex e
         | Inr gain_val_db \<Rightarrow>
             (let e1 = e\<lparr>parameters := (parameters e)(''gain_db'' \<mapsto> PyFloat gain_val_db)\<rparr>
              in case py_pow10 (gain_val_db / 20) of
                   Inl ex \<Rightarrow> Raised ex e1
                 | Inr g \<Rightarrow> Returned (e1\<lparr>gain_linear := g\<rparr>)))
      else Returned e)"

text \<open>
  \<^verbatim>\<open>GainEffect.__init__\<close>, its body as written. (\<^verbatim>\<open>AudioEffect\<close> declares
  \<^verbatim>\<open>get_parameters\<close> abstract and \<^verbatim>\<open>GainEffect\<close> does not define it; what the
  \<^verbatim>\<open>ABC\<close> machinery makes of that at construction is outside the model.)
\<close>

definition GainEffect_init :: gain_effect where
  "GainEffect_init =
     state_of (gain_on_parameter_change ''gain_db'' (PyFloat 0)
       \<lparr>name = ''Gain'', enabled = True, bypass = False,
        parameters = [''gain_db'' \<mapsto> PyFloat 0],
        sample_rate = 44100, channels = 2, gain_linear = 1\<rparr>)"

text \<open>
  \<^verbatim>\<open>GainEffect.process_block\<close>. The base method returns the very object it was given
  when the effect is bypassed or disabled, so the \<^verbatim>\<open>is\<close> test holds then.
\<close>

definition gain_process_block :: "gain_effect \<Rightarrow> ndarray \<Rightarrow> py_exn + ndarray" where
  "gain_process_block e audio_block =
     (case process_block e audio_block of
        Inl ex \<Rightarrow> Inl ex
      | Inr processed_block \<Rightarrow>
          if bypass e \<or> \<not> enabled e then Inr audio_block
          else if gain_linear e = 1 then Inr processed_block
          else Inr (np_mul_scalar processed_block (gain_linear e)))"

text \<open>
  The linear gain \<^verbatim>\<open>_on_parameter_change\<close> computes from a value, when both
  computations succeed.
\<close>

definition gain_of :: "pyval \<Rightarrow> py_exn + real" where
  "gain_of v = (case py_float v of Inl ex \<Rightarrow> Inl ex | Inr d \<Rightarrow> py_pow10 (d / 20))"

text \<open>
  The gain follows the stored parameter: \<^verbatim>\<open>parameters['gain_db']\<close> is set, and
  whenever a gain can be computed from it, \<^verbatim>\<open>gain_linear\<close> is that gain.
\<close>

definition gain_follows_parameter :: "gain_effect \<Rightarrow> bool" where
  "gain_follows_parameter e =
     (case parameters e ''gain_db'' of
        None \<Rightarrow> False
      | Some g \<Rightarrow> (case gain_of g of Inl ex \<Rightarrow> True | Inr l \<Rightarrow> gain_linear e = l))"

subsection \<open>Chorus\<close>

record voice =
  buffer :: ndarray
  lfo_phase :: real
  lfo_rate_hz :: real
  base_delay_s :: real

record chorus_effect = effect +
  voices_data :: "voice list"
  max_voice_delay_s :: real
  write_idx :: nat

text \<open>
  \<^verbatim>\<open>range(n)\<close> on a parameter value: the number of iterations, or a TypeError when the
  value is not an integer (a bool is one).
\<close>

fun py_range_count :: "pyval \<Rightarrow> py_exn + nat" where
  "py_range_count (PyInt n) = Inr (nat n)"
| "py_range_count (PyBool b) = Inr (if b then 1 else 0)"
| "py_range_count v = Inl TypeError"

text \<open>
  The loop of \<^verbatim>\<open>Chorus.reset\<close> over the voice indices. The numbers \<^verbatim>\<open>np.random\<close>
  hands out during the call are an argument: for voice \<open>i\<close> the results of
  \<^verbatim>\<open>rand()\<close>, \<^verbatim>\<open>uniform(-0.1, 0.1)\<close> and \<^verbatim>\<open>uniform(0, 0.002)\<close>. Multiplying the
  \<^verbatim>\<open>rate_hz\<close> parameter by a float converts it as \<^verbatim>\<open>float\<close> does; when that raises,
  the voices appended so far stay.
\<close>

fun chorus_add_voices ::
    "(nat \<Rightarrow> real \<times> real \<times> real) \<Rightarrow> nat \<Rightarrow> nat list \<Rightarrow> chorus_effect \<Rightarrow> chorus_effect outcome" where
  "chorus_add_voices draws buffer_len_samples [] e = Returned e"
| "chorus_add_voices draws buffer_len_samples (i # rest) e =
     (case draws i of (r, u, d) \<Rightarrow>
        (case py_float (case parameters e ''rate_hz'' of None \<Rightarrow> PyFloat (2 / 10) | Some v \<Rightarrow> v) of
           Inl ex \<Rightarrow> Raised ex e
         | Inr rate \<Rightarrow>
             chorus_add_voices draws buffer_len_samples rest
               (e\<lparr>voices_data := voices_data e @
                    [\<lparr>buffer = \<lparr>shape = [buffer_len_samples, nat (channels e)],
                                data = replicate (buffer_len_samples * nat (channels e)) 0\<rparr>,
                      lfo_phase = r * 2 * pi,
                      lfo_rate_hz = rate * (1 + u),
                      base_delay_s = 5 / 1000 + d * real i\<rparr>]\<rparr>)))"

text \<open>
  \<^verbatim>\<open>Chorus.reset\<close>: \<^verbatim>\<open>voices_data\<close> is emptied first; the two early returns and a
  raising \<^verbatim>\<open>range\<close> leave it empty; \<^verbatim>\<open>write_idx\<close> is only reset after the loop.
  The product with the float \<^verbatim>\<open>max_voice_delay_s\<close> converts the sample rate as
  \<^verbatim>\<open>float\<close> does, and \<^verbatim>\<open>int(...)\<close> truncates towards zero.
\<close>

definition chorus_reset ::
    "(nat \<Rightarrow> real \<times> real \<times> real) \<Rightarrow> chorus_effect \<Rightarrow> chorus_effect outcome" where
  "chorus_reset draws e =
     (let num_v = (case parameters e ''num_voices'' of None \<Rightarrow> PyInt 3 | Some v \<Rightarrow> v);
          e1 = e\<lparr>voices_data := []\<rparr>
      in if sample_rate e \<le> 0 \<or> channels e \<le> 0 then Returned e1
         else
           (case py_float (PyInt (sample_rate e)) of
              Inl ex \<Rightarrow> Raised ex e1
            | Inr sr \<Rightarrow>
                let x = max_voice_delay_s e * sr;
                    buffer_len_samples = (if 0 \<le> x then \<lfloor>x\<rfloor> else \<lceil>x\<rceil>)
                in if buffer_len_samples \<le> 0 then Returned e1
                   else (case py_range_count num_v of
                           Inl ex \<Rightarrow> Raised ex e1
                         | Inr n \<Rightarrow>
                             (case chorus_add_voices draws (nat buffer_len_samples) [0..<n] e1 of
                                Raised ex s \<Rightarrow> Raised ex s
                              | Returned s \<Rightarrow> Returned (s\<lparr>write_idx := 0\<rparr>)))))"

text \<open>\<^verbatim>\<open>Chorus._on_parameter_change\<close>\<close>

definition chorus_on_parameter_change ::
    "(nat \<Rightarrow> real \<times> real \<times> real) \<Rightarrow> string \<Rightarrow> pyval \<Rightarrow> chorus_effect \<Rightarrow> chorus_effect outcome" where
  "chorus_on_parameter_change draws nm v e =
     (if nm = ''num_voices'' \<or> nm = ''_stream_props_changed'' then chorus_reset draws e
      else Returned e)"

text \<open>\<^verbatim>\<open>Chorus.__init__\<close>\<close>

definition Chorus_init :: "(nat \<Rightarrow> real \<times> real \<times> real) \<Rightarrow> chorus_effect" where
  "Chorus_init draws =
     state_of (chorus_reset draws
       \<lparr>name = ''Chorus'', enabled = True, bypass = False,
        parameters = [''rate_hz'' \<mapsto> PyFloat (2 / 10), ''depth_s'' \<mapsto> PyFloat (3 / 1000),
                      ''mix'' \<mapsto> PyFloat (5 / 10), ''num_voices'' \<mapsto> PyInt 3,
                      ''stereo_spread'' \<mapsto> PyFloat (7 / 10)],
        sample_rate = 44100, channels = 2,
        voices_data = [], max_voice_delay_s = 25 / 1000, write_idx = 0\<rparr>)"

section \<open>HostAppInterface\<close>

text \<open>
  The objects the host holds references to are \<^verbatim>\<open>Any\<close>. An object is the mapping from
  its attribute names to its members: a data attribute with its value, or a method
  with what a call with given positional and keyword arguments does, return (\<open>None\<close>)
  or raise. What a method does to its own object is not part of the host's code.
  Objects are truthy.
\<close>

datatype 'v member = Data pyval | Method "'v list \<Rightarrow> (string \<times> 'v) list \<Rightarrow> py_exn option"

type_synonym 'v component = "string \<rightharpoonup> 'v member"

datatype target = Engine | PlayerUI

type_synonym 'v call = "target \<times> string \<times> 'v list \<times> (string \<times> 'v) list"

record 'v host_app =
  audio_engine_ref :: "'v component option"
  main_player_ui_ref :: "'v component option"
  status_bar_var :: "string option"

definition hasattr :: "'v component \<Rightarrow> string \<Rightarrow> bool" where
  "hasattr c n = (c n \<noteq> None)"

text \<open>\<^verbatim>\<open>int(obj.attr)\<close> for an attribute that exists; a bound method is not a number.\<close>

fun int_of_member :: "'v member \<Rightarrow> py_exn + int" where
  "int_of_member (Data v) = py_int v"
| "int_of_member (Method f) = Inl TypeError"

text \<open>
  \<^verbatim>\<open>HostAppInterface.get_audio_properties\<close>. The guard is the engine reference being
  set and both \<^verbatim>\<open>hasattr\<close> tests holding: both attribute lookups give a member.
  \<^verbatim>\<open>int(...)\<close> of the sample rate is evaluated before that of the channel count.
\<close>

definition get_audio_properties :: "'v host_app \<Rightarrow> py_exn + int \<times> int" where
  "get_audio_properties h =
     (case audio_engine_ref h of
        None \<Rightarrow> Inr (44100, 2)
      | Some eng \<Rightarrow>
          (case (eng ''sample_rate'', eng ''channels'') of
             (Some sr, Some ch) \<Rightarrow>
               (case int_of_member sr of
                  Inl ex \<Rightarrow> Inl ex
                | Inr s \<Rightarrow> (case int_of_member ch of Inl ex \<Rightarrow> Inl ex | Inr c \<Rightarrow> Inr (s, c)))
           | _ \<Rightarrow> Inr (44100, 2)))"

text \<open>
  The values of the \<^verbatim>\<open>params\<close> dictionary of a playback action: what the callers
  pass (paths, ids, levels, flags, lists of paths, a dictionary of keyword arguments).
\<close>

datatype pobj =
  PNone | PBool bool | PInt int | PFloat real | PStr string
  | PList "pobj list" | PDict "(pobj \<times> pobj) list"

text \<open>
  \<^verbatim>\<open>**value\<close> in a call: the value has to be a mapping and its keys strings, or the
  call raises TypeError before the callee runs.
\<close>

fun keyword_item :: "pobj \<times> pobj \<Rightarrow> (string \<times> pobj) option" where
  "keyword_item (PStr k, v) = Some (k, v)"
| "keyword_item (k, v) = None"

fun unpack_kwargs :: "pobj \<Rightarrow> py_exn + (string \<times> pobj) list" where
  "unpack_kwargs (PDict items) =
     (case those (map keyword_item items) of None \<Rightarrow> Inl TypeError | Some kw \<Rightarrow> Inr kw)"
| "unpack_kwargs v = Inl TypeError"

text \<open>
  The error message handed to the callback: \<^verbatim>\<open>"Playback action requested, but audio
  engine not available."\<close>, \<^verbatim>\<open>f"Unknown playback action: {action}"\<close>,
  \<^verbatim>\<open>f"Component missing method for action '{action}': {ae}"\<close> and
  \<^verbatim>\<open>f"Error executing playback action '{action}': {e}"\<close>.
\<close>

datatype playback_error =
  EngineNotAvailable | UnknownAction string | ComponentMissingMethod string
  | ErrorExecuting string py_exn

text \<open>
  \<^verbatim>\<open>obj.m(arguments)\<close>: the attribute is looked up (AttributeError), then the argument
  expressions are evaluated (they can raise), then the member is called (TypeError when
  it is not callable). A call that starts is recorded, whether it returns or raises.
\<close>

definition invoke ::
    "target \<Rightarrow> 'v component \<Rightarrow> string \<Rightarrow> (py_exn + 'v list \<times> (string \<times> 'v) list) \<Rightarrow>
     'v call list \<times> (py_exn + unit)" where
  "invoke t c m arguments =
     (case c m of
        None \<Rightarrow> ([], Inl AttributeError)
      | Some mem \<Rightarrow>
          (case arguments of
             Inl ex \<Rightarrow> ([], Inl ex)
           | Inr (args, kw) \<Rightarrow>
               (case mem of
                  Data v \<Rightarrow> ([], Inl TypeError)
                | Method f \<Rightarrow>
                    ([(t, m, args, kw)], case f args kw of None \<Rightarrow> Inr () | Some ex \<Rightarrow> Inl ex))))"

text \<open>Positional arguments \<^verbatim>\<open>params['k1'], ...\<close>: a missing key is a KeyError.\<close>

definition required ::
    "(string \<rightharpoonup> 'v) \<Rightarrow> string list \<Rightarrow> py_exn + 'v list \<times> (string \<times> 'v) list" where
  "required params keys =
     (case those (map params keys) of None \<Rightarrow> Inl KeyError | Some vs \<Rightarrow> Inr (vs, []))"

text \<open>\<^verbatim>\<open>params.get(k, default)\<close>\<close>

definition param_or :: "(string \<rightharpoonup> 'v) \<Rightarrow> string \<Rightarrow> 'v \<Rightarrow> 'v" where
  "param_or params k d = (case params k of Some v \<Rightarrow> v | None \<Rightarrow> d)"

text \<open>Only keyword arguments, from \<^verbatim>\<open>**value\<close>.\<close>

definition keywords_from :: "pobj \<Rightarrow> py_exn + pobj list \<times> (string \<times> pobj) list" where
  "keywords_from v = (case unpack_kwargs v of Inl ex \<Rightarrow> Inl ex | Inr kw \<Rightarrow> Inr ([], kw))"

text \<open>A call followed by \<^verbatim>\<open>success = True\<close>; a branch whose guard fails leaves \<^verbatim>\<open>success\<close> False.\<close>

definition then_success ::
    "'v call list \<times> (py_exn + unit) \<Rightarrow> 'v call list \<times> (py_exn + bool \<times> playback_error option)" where
  "then_success r = (case r of (cs, Inl ex) \<Rightarrow> (cs, Inl ex) | (cs, Inr u) \<Rightarrow> (cs, Inr (True, None)))"

definition guard_failed :: "'v call list \<times> (py_exn + bool \<times> playback_error option)" where
  "guard_failed = ([], Inr (False, None))"

text \<open>
  A branch of the form
  \<^verbatim>\<open>if self.main_player_ui_ref and hasattr(self.main_player_ui_ref, m): ui.m(params[k], ...); success = True\<close>
\<close>

definition player_ui_action ::
    "'v host_app \<Rightarrow> string \<Rightarrow> (string \<rightharpoonup> 'v) \<Rightarrow> string list \<Rightarrow>
     'v call list \<times> (py_exn + bool \<times> playback_error option)" where
  "player_ui_action h m params keys =
     (case main_player_ui_ref h of
        None \<Rightarrow> guard_failed
      | Some ui \<Rightarrow>
          if hasattr ui m then then_success (invoke PlayerUI ui m (required params keys))
          else guard_failed)"

text \<open>
  The \<^verbatim>\<open>if\<close>/\<^verbatim>\<open>elif\<close> chain inside the \<^verbatim>\<open>try\<close> of \<^verbatim>\<open>request_playback_action\<close>, in the
  source's order. The result is the calls made and either the exception raised or
  \<^verbatim>\<open>(success, err_msg)\<close>.
\<close>

definition playback_dispatch ::
    "pobj host_app \<Rightarrow> pobj component \<Rightarrow> string \<Rightarrow> (string \<rightharpoonup> pobj) \<Rightarrow>
     pobj call list \<times> (py_exn + bool \<times> playback_error option)" where
  "playback_dispatch h eng action params =
     (if action = ''load_track_from_path'' then
        player_ui_action h ''load_track'' params [''filepath'']
      else if action = ''load_and_play_path'' then
        player_ui_action h ''load_track_and_play'' params [''filepath'']
      else if action = ''play_track_by_id'' then
        player_ui_action h ''play_track_by_id_from_library'' params [''track_id'']
      else if action = ''play_track_at_playlist_index'' then
        (if hasattr eng ''play_track_at_playlist_index''
         then then_success (invoke Engine eng ''play_track_at_playlist_index''
                (required params [''index'']))
         else guard_failed)
      else if action = ''play'' then
        then_success (invoke Engine eng ''play''
          (keywords_from (param_or params ''play_args'' (PDict []))))
      else if action = ''pause'' then then_success (invoke Engine eng ''pause'' (Inr ([], [])))
      else if action = ''resume'' then
        (if hasattr eng ''resume'' then then_success (invoke Engine eng ''resume'' (Inr ([], [])))
         else then_success (invoke Engine eng ''play'' (Inr ([], []))))
      else if action = ''stop'' then then_success (invoke Engine eng ''stop'' (Inr ([], [])))
      else if action = ''next'' then then_success (invoke Engine eng ''next_track'' (Inr ([], [])))
      else if action = ''previous'' then
        then_success (invoke Engine eng ''previous_track'' (Inr ([], [])))
      else if action = ''set_volume'' then
        then_success (invoke Engine eng ''set_volume''
          (Inr ([param_or params ''level'' (PFloat (7 / 10))], [])))
      else if action = ''seek'' then
        then_success (invoke Engine eng ''set_position''
          (Inr ([param_or params ''position_seconds'' (PFloat 0)], [])))
      else if action = ''toggle_mute'' then
        (if hasattr eng ''toggle_mute''
         then then_success (invoke Engine eng ''toggle_mute'' (Inr ([], [])))
         else guard_failed)
      else if action = ''add_to_queue_path'' then
        player_ui_action h ''add_to_playback_queue'' params [''filepath'']
      else if action = ''load_playlist_paths'' then
        (if hasattr eng ''load_playlist''
         then then_success (invoke Engine eng ''load_playlist''
                (Inr ([param_or params ''paths'' (PList [])],
                      [(''play_first'', param_or params ''play_first'' (PBool True)),
                       (''replace_queue'', param_or params ''replace_queue'' (PBool True))])))
         else guard_failed)
      else if action = ''set_shuffle_mode'' then
        (if hasattr eng ''set_shuffle_mode''
         then then_success (invoke Engine eng ''set_shuffle_mode''
                (Inr ([param_or params ''state'' (PBool False)], [])))
         else guard_failed)
      else if action = ''set_repeat_mode'' then
        (if hasattr eng ''set_repeat_mode''
         then then_success (invoke Engine eng ''set_repeat_mode''
                (Inr ([param_or params ''mode'' (PStr ''off'')], [])))
         else guard_failed)
      else if action = ''force_sync_playback'' then
        player_ui_action h ''force_sync_local_player_to_state'' params
          [''library_track_id'', ''position_seconds'', ''is_playing_target'']
      else ([], Inr (False, Some (UnknownAction action))))"

text \<open>
  What \<^verbatim>\<open>request_playback_action\<close> leaves behind: the final \<^verbatim>\<open>success\<close> and
  \<^verbatim>\<open>err_msg\<close>, the component calls it made, the text of the status bar variable, and
  what was scheduled for the caller's callback, if one was given.
\<close>

record 'v action_result =
  success :: bool
  err_msg :: "playback_error option"
  calls :: "'v call list"
  status_bar :: "string option"
  reported :: "(bool \<times> playback_error option) option"

text \<open>The message of the two \<^verbatim>\<open>except\<close> clauses: \<^verbatim>\<open>AttributeError\<close> first, then \<^verbatim>\<open>Exception\<close>.\<close>

definition exception_message :: "string \<Rightarrow> py_exn \<Rightarrow> playback_error" where
  "exception_message action ex =
     (if ex = AttributeError then ComponentMissingMethod action else ErrorExecuting action ex)"

text \<open>
  \<^verbatim>\<open>HostAppInterface.request_playback_action\<close>. \<^verbatim>\<open>params\<close> is the dictionary after
  \<^verbatim>\<open>params or {}\<close>. The status bar is written inside the \<^verbatim>\<open>try\<close> after the chain, so
  not when the chain raised; the two handlers only set \<^verbatim>\<open>err_msg\<close>.
\<close>

definition request_playback_action ::
    "pobj host_app \<Rightarrow> string \<Rightarrow> (string \<rightharpoonup> pobj) \<Rightarrow> bool \<Rightarrow> pobj action_result" where
  "request_playback_action h action params has_callback =
     (case audio_engine_ref h of
        None \<Rightarrow>
          \<lparr>success = False, err_msg = Some EngineNotAvailable, calls = [],
           status_bar = (case status_bar_var h of
                           None \<Rightarrow> None
                         | Some old \<Rightarrow> Some ''Error: Audio engine not ready.''),
           reported = (if has_callback then Some (False, Some EngineNotAvailable) else None)\<rparr>
      | Some eng \<Rightarrow>
          (case playback_dispatch h eng action params of
             (cs, Inr (ok, err)) \<Rightarrow>
               \<lparr>success = ok, err_msg = err, calls = cs,
                status_bar =
                  (case status_bar_var h of
                     None \<Rightarrow> None
                   | Some old \<Rightarrow>
                       if ok then Some (''Playback: '' @ action @ '' processed.'')
                       else (case err of
                               Some (UnknownAction a) \<Rightarrow> Some (''Error: Unknown playback action: '' @ a)
                             | _ \<Rightarrow> Some old)),
                reported = (if has_callback then Some (ok, err) else None)\<rparr>
           | (cs, Inl ex) \<Rightarrow>
               \<lparr>success = False, err_msg = Some (exception_message action ex), calls = cs,
                status_bar = status_bar_var h,
                reported = (if has_callback then Some (False, Some (exception_message action ex))
                            else None)\<rparr>))"

text \<open>The action names the chain tests for, in its order.\<close>

definition playback_actions :: "string list" where
  "playback_actions =
     [''load_track_from_path'', ''load_and_play_path'', ''play_track_by_id'',
      ''play_track_at_playlist_index'', ''play'', ''pause'', ''resume'', ''stop'', ''next'',
      ''previous'', ''set_volume'', ''seek'', ''toggle_mute'', ''add_to_queue_path'',
      ''load_playlist_paths'', ''set_shuffle_mode'', ''set_repeat_mode'', ''force_sync_playback'']"

text \<open>
  Binding the arguments of a call to a \<^verbatim>\<open>def m(self, p1, ..., pn)\<close> whose first
  \<open>nreq\<close> parameters have no default: too many positional arguments, an unknown or
  repeated keyword, a keyword for a parameter already given by position, or a
  parameter without default left unbound is a TypeError. The body is \<^verbatim>\<open>pass\<close>.
\<close>

definition def_pass :: "string list \<Rightarrow> nat \<Rightarrow> 'v list \<Rightarrow> (string \<times> 'v) list \<Rightarrow> py_exn option" where
  "def_pass ps nreq args kw =
     (if length args \<le> length ps
         \<and> distinct (map fst kw)
         \<and> set (map fst kw) \<subseteq> set (drop (length args) ps)
         \<and> set (drop (length args) (take nreq ps)) \<subseteq> set (map fst kw)
      then None else Some TypeError)"

text \<open>
  The members of an \<^verbatim>\<open>AudioEngine\<close> that the host uses, as \<^verbatim>\<open>class AudioEngine\<close>
  defines them: the data attributes \<^verbatim>\<open>sample_rate\<close> and \<^verbatim>\<open>channels\<close> of \<^verbatim>\<open>__init__\<close>,
  and the methods with their parameter lists. There is no \<^verbatim>\<open>load_playlist\<close>.
\<close>

definition AudioEngine_component :: "'v component" where
  "AudioEngine_component =
     map_of
       [(''sample_rate'', Data (PyInt 44100)), (''channels'', Data (PyInt 2)),
        (''play'', Method (def_pass [''start_offset_sec'', ''track_path_to_load''] 0)),
        (''pause'', Method (def_pass [] 0)),
        (''resume'', Method (def_pass [] 0)),
        (''stop'', Method (def_pass [] 0)),
        (''set_position'', Method (def_pass [''position_seconds''] 1)),
        (''set_volume'', Method (def_pass [''volume_float''] 1)),
        (''toggle_mute'', Method (def_pass [] 0)),
        (''set_shuffle_mode'', Method (def_pass [''enable''] 1)),
        (''set_repeat_mode'', Method (def_pass [''mode''] 1)),
        (''next_track'', Method (def_pass [] 0)),
        (''previous_track'', Method (def_pass [] 0)),
        (''play_track_at_playlist_index'', Method (def_pass [''index_in_current_playlist''] 1))]"

text \<open>
  The component operation that belongs to each action name: on which object, which
  method, and whether the branch tests \<^verbatim>\<open>hasattr\<close> first. \<^verbatim>\<open>resume\<close> falls back to the
  engine's \<^verbatim>\<open>play\<close> when the engine has no \<^verbatim>\<open>resume\<close>.
\<close>

definition playback_operation :: "'v component \<Rightarrow> string \<Rightarrow> (target \<times> string \<times> bool) option" where
  "playback_operation eng =
     map_of
       [(''load_track_from_path'', (PlayerUI, ''load_track'', True)),
        (''load_and_play_path'', (PlayerUI, ''load_track_and_play'', True)),
        (''play_track_by_id'', (PlayerUI, ''play_track_by_id_from_library'', True)),
        (''play_track_at_playlist_index'', (Engine, ''play_track_at_playlist_index'', True)),
        (''play'', (Engine, ''play'', False)),
        (''pause'', (Engine, ''pause'', False)),
        (''resume'', (Engine, if hasattr eng ''resume'' then ''resume'' else ''play'', False)),
        (''stop'', (Engine, ''stop'', False)),
        (''next'', (Engine, ''next_track'', False)),
        (''previous'', (Engine, ''previous_track'', False)),
        (''set_volume'', (Engine, ''set_volume'', False)),
        (''seek'', (Engine, ''set_position'', False)),
        (''toggle_mute'', (Engine, ''toggle_mute'', True)),
        (''add_to_queue_path'', (PlayerUI, ''add_to_playback_queue'', True)),
        (''load_playlist_paths'', (Engine, ''load_playlist'', True)),
        (''set_shuffle_mode'', (Engine, ''set_shuffle_mode'', True)),
        (''set_repeat_mode'', (Engine, ''set_repeat_mode'', True)),
        (''force_sync_playback'', (PlayerUI, ''force_sync_local_player_to_state'', True))]"

text \<open>
  The arguments each action's operation is called with, taken from \<^verbatim>\<open>params\<close>:
  positional ones, then keyword ones, or the exception their evaluation raises.
\<close>

definition operation_arguments ::
    "string \<Rightarrow> (string \<rightharpoonup> pobj) \<Rightarrow> py_exn + pobj list \<times> (string \<times> pobj) list" where
  "operation_arguments action params =
     (if action \<in> {''load_track_from_path'', ''load_and_play_path'', ''add_to_queue_path''}
        then required params [''filepath'']
      else if action = ''play_track_by_id'' then required params [''track_id'']
      else if action = ''play_track_at_playlist_index'' then required params [''index'']
      else if action = ''force_sync_playback''
        then required params [''library_track_id'', ''position_seconds'', ''is_playing_target'']
      else if action = ''play'' then keywords_from (param_or params ''play_args'' (PDict []))
      else if action = ''set_volume'' then Inr ([param_or params ''level'' (PFloat (7 / 10))], [])
      else if action = ''seek'' then Inr ([param_or params ''position_seconds'' (PFloat 0)], [])
      else if action = ''load_playlist_paths''
        then Inr ([param_or params ''paths'' (PList [])],
                  [(''play_first'', param_or params ''play_first'' (PBool True)),
                   (''replace_queue'', param_or params ''replace_queue'' (PBool True))])
      else if action = ''set_shuffle_mode'' then Inr ([param_or params ''state'' (PBool False)], [])
      else if action = ''set_repeat_mode'' then Inr ([param_or params ''mode'' (PStr ''off'')], [])
      else Inr ([], []))"

text \<open>The member an operation names, when its object is there and has it.\<close>

definition operation_member ::
    "'v host_app \<Rightarrow> 'v component \<Rightarrow> target \<Rightarrow> string \<Rightarrow> 'v member option" where
  "operation_member h eng t m =
     (case t of
        Engine \<Rightarrow> eng m
      | PlayerUI \<Rightarrow> (case main_player_ui_ref h of None \<Rightarrow> None | Some ui \<Rightarrow> ui m))"

text \<open>
  What the action's operation, its guard and its arguments determine: nothing is called
  when the member is missing (silently under a \<^verbatim>\<open>hasattr\<close> guard, as an
  AttributeError otherwise), when an argument cannot be evaluated, or when the member is
  not callable; otherwise exactly the operation is called with the arguments, and
  \<^verbatim>\<open>success\<close> is whether it returned.
\<close>

definition operation_outcome ::
    "target \<Rightarrow> string \<Rightarrow> bool \<Rightarrow> 'v member option \<Rightarrow> (py_exn + 'v list \<times> (string \<times> 'v) list) \<Rightarrow>
     'v call list \<times> (py_exn + bool \<times> playback_error option)" where
  "operation_outcome t m guarded mem arguments =
     (case mem of
        None \<Rightarrow> if guarded then ([], Inr (False, None)) else ([], Inl AttributeError)
      | Some x \<Rightarrow>
          (case arguments of
             Inl ex \<Rightarrow> ([], Inl ex)
           | Inr (args, kw) \<Rightarrow>
               (case x of
                  Data v \<Rightarrow> ([], Inl TypeError)
                | Method f \<Rightarrow>
                    ([(t, m, args, kw)],
                     case f args kw of None \<Rightarrow> Inr (True, None) | Some ex \<Rightarrow> Inl ex))))"

section \<open>The realtime output callback: properties\<close>

subsection \<open>Assigning an array of the same shape\<close>

lemma concat_chunks_take:
  "concat (map (\<lambda>i. take n (drop (i * n) d)) [0..<k]) = take (k * n) d"
proof (induction k)
  case 0
  show ?case by simp
next
  case (Suc k)
  have "take (k * n) d @ take n (drop (k * n) d) = take (k * n + n) d"
    by (simp add: take_add)
  with Suc show ?case by (simp add: add.commute)
qed

lemma chunk_length:
  assumes "length d = s * p" and "i < s"
  shows "length (take p (drop (i * p) d)) = p"
proof -
  have "i * p + p \<le> s * p"
  proof -
    have "Suc i \<le> s" using assms(2) by simp
    then have "Suc i * p \<le> s * p" by (rule mult_le_mono1)
    then show ?thesis by (simp add: add.commute)
  qed
  then show ?thesis using assms(1) by simp
qed

lemma broadcast_data_same:
  "length d = prod_list s \<Longrightarrow> broadcast_data s s d = d"
proof (induction s arbitrary: d)
  case Nil
  show ?case by simp
next
  case (Cons a s)
  have len: "length d = a * prod_list s" using Cons.prems by simp
  have "map (\<lambda>i. broadcast_data s s (take (prod_list s) (drop (i * prod_list s) d))) [0..<a]
      = map (\<lambda>i. take (prod_list s) (drop (i * prod_list s) d)) [0..<a]"
  proof (rule map_cong[OF refl])
    fix i assume "i \<in> set [0..<a]"
    then have "i < a" by simp
    from chunk_length[OF len this]
    show "broadcast_data s s (take (prod_list s) (drop (i * prod_list s) d))
        = take (prod_list s) (drop (i * prod_list s) d)"
      by (rule Cons.IH)
  qed
  then have eq: "concat (map (\<lambda>i. broadcast_data s s (take (prod_list s) (drop (i * prod_list s) d))) [0..<a])
      = take (a * prod_list s) d"
    by (simp only: concat_chunks_take)
  have "broadcast_data (a # s) (a # s) d =
      concat (map (\<lambda>i. broadcast_data s s (take (prod_list s) (drop (i * prod_list s) d))) [0..<a])"
    by (simp del: map_eq_conv)
  also note eq
  finally have "broadcast_data (a # s) (a # s) d = take (a * prod_list s) d" .
  then show ?case using len by simp
qed

lemma strip_leading_ones_short: "length s \<le> n \<Longrightarrow> strip_leading_ones n s = s"
  by (cases s) auto

lemma broadcastable_refl: "broadcastable s s"
  by (induction s) auto

lemma np_assign_all_same_shape:
  assumes "shape src = shape dst" and "wf_array src"
  shows "np_assign_all dst src = Inr (dst\<lparr>data := data src\<rparr>)"
  using assms
  by (simp add: np_assign_all_def Let_def strip_leading_ones_short broadcastable_refl
      broadcast_data_same wf_array_def)





subsection \<open>Silence on every failure\<close>




subsection \<open>A block of the expected shape\<close>

text \<open>
  C2. When the timeout can be computed and the head of the queue is a block whose shape
  is the output buffer's, \<^verbatim>\<open>frames\<close> being the buffer's frame count, the callback pops
  it and the output buffer becomes the block multiplied elementwise by the effective
  volume: the engine's volume when not muted, 0 when muted.
\<close>

theorem callback_writes_scaled_block:
  assumes "engine_sample_rate e \<noteq> 0"
    and "stream_output_queue e = Block b # rest"
    and "wf_array b"
    and "shape b = [r, c]" and "shape outdata = [r, c]" and "frames = int r"
  shows "sounddevice_callback e outdata frames =
           Inr (outdata\<lparr>data := map (\<lambda>x. x * (if is_muted e then 0 else volume e)) (data b)\<rparr>,
                e\<lparr>stream_output_queue := rest\<rparr>)"
proof -
  have wfm: "wf_array (np_mul_scalar b (effective_volume e))"
    using assms(3) by (simp add: wf_array_def np_mul_scalar_def)
  have shm: "shape (np_mul_scalar b (effective_volume e)) = shape outdata"
    using assms(4,5) by (simp add: np_mul_scalar_def)
  have "write_block e b outdata frames = np_assign_all outdata (np_mul_scalar b (effective_volume e))"
    using assms(4,5,6) by (simp add: write_block_def shape_index_def)
  also have "\<dots> = Inr (outdata\<lparr>data := data (np_mul_scalar b (effective_volume e))\<rparr>)"
    using shm wfm by (rule np_assign_all_same_shape)
  finally have "write_block e b outdata frames =
      Inr (outdata\<lparr>data := map (\<lambda>x. x * (if is_muted e then 0 else volume e)) (data b)\<rparr>)"
    by (simp add: np_mul_scalar_def effective_volume_def)
  then show ?thesis
    using assms(1,2) by (simp add: sounddevice_callback_def sounddevice_callback_try_def)
qed


theorem callback_writes_scaled_block_witness:
  "sounddevice_callback
     (AudioEngine_init\<lparr>stream_output_queue := [Block \<lparr>shape = [2, 2], data = [1, 2, 3, 4]\<rparr>]\<rparr>)
     \<lparr>shape = [2, 2], data = [9, 9, 9, 9]\<rparr> 2
   = Inr (\<lparr>shape = [2, 2], data = [7 / 10, 14 / 10, 21 / 10, 28 / 10]\<rparr>, AudioEngine_init)"
proof -
  let ?b = "\<lparr>shape = [2, 2], data = [1, 2, 3, 4 :: real]\<rparr>"
  let ?e = "AudioEngine_init\<lparr>stream_output_queue := [Block ?b]\<rparr>"
  have h1: "engine_sample_rate ?e \<noteq> 0" by (simp add: AudioEngine_init_def)
  have h2: "stream_output_queue ?e = Block ?b # []" by simp
  have h3: "wf_array ?b" by (simp add: wf_array_def)
  have h4: "shape ?b = [2, 2]" by simp
  have h5: "shape \<lparr>shape = [2, 2], data = [9, 9, 9, 9 :: real]\<rparr> = [2, 2]" by simp
  have h6: "(2 :: int) = int 2" by simp
  show ?thesis
    using callback_writes_scaled_block [OF h1 h2 h3 h4 h5 h6]
    by (simp add: AudioEngine_init_def)
qed

subsection \<open>Mute and volume\<close>

text \<open>
  C9 has the effective volume be 0 after \<^verbatim>\<open>set_volume(0.0)\<close>, \<^verbatim>\<open>toggle_mute()\<close>,
  \<^verbatim>\<open>toggle_mute()\<close>. On the engine as written the two methods do nothing: after the
  sequence on a new engine the volume is still 0.7, the engine is not muted, the
  effective volume is 0.7, and the callback writes a queued block scaled by 0.7.
\<close>

theorem mute_sequence_on_engine_as_written:
  "volume (toggle_mute (toggle_mute (set_volume 0 AudioEngine_init))) = 7 / 10
   \<and> is_muted (toggle_mute (toggle_mute (set_volume 0 AudioEngine_init))) = False
   \<and> effective_volume (toggle_mute (toggle_mute (set_volume 0 AudioEngine_init))) = 7 / 10
   \<and> sounddevice_callback
        ((toggle_mute (toggle_mute (set_volume 0 AudioEngine_init)))
           \<lparr>stream_output_queue := [Block \<lparr>shape = [1, 2], data = [1, 2]\<rparr>]\<rparr>)
        \<lparr>shape = [1, 2], data = [9, 9]\<rparr> 1
       = Inr (\<lparr>shape = [1, 2], data = [7 / 10, 14 / 10]\<rparr>, AudioEngine_init)"
proof -
  let ?b = "\<lparr>shape = [1, 2], data = [1, 2 :: real]\<rparr>"
  let ?o = "\<lparr>shape = [1, 2], data = [9, 9 :: real]\<rparr>"
  have "np_assign_all ?o (np_mul_scalar ?b (7 / 10)) = Inr (?o\<lparr>data := data (np_mul_scalar ?b (7 / 10))\<rparr>)"
    by (rule np_assign_all_same_shape) (simp_all add: np_mul_scalar_def wf_array_def)
  then show ?thesis
    by (simp add: effective_volume_def toggle_mute_def set_volume_def AudioEngine_init_def
        sounddevice_callback_def sounddevice_callback_try_def write_block_def shape_index_def
        np_mul_scalar_def)
qed

section \<open>Audio effects: properties\<close>

subsection \<open>Channel adaptation\<close>

lemma concat_pairs_nth:
  "j < length xs \<Longrightarrow>
     concat (map (\<lambda>x. [g x, g x]) xs) ! (j * 2) = g (xs ! j)
   \<and> concat (map (\<lambda>x. [g x, g x]) xs) ! (j * 2 + 1) = g (xs ! j)"
proof (induction xs arbitrary: j)
  case Nil
  then show ?case by simp
next
  case (Cons x xs)
  show ?case
  proof (cases j)
    case 0
    then show ?thesis by simp
  next
    case (Suc k)
    with Cons.prems have "k < length xs" by simp
    from Cons.IH[OF this] Suc show ?thesis by simp
  qed
qed

lemma take1_drop: "i < length d \<Longrightarrow> take 1 (drop i d) = [d ! i]"
  by (simp add: take_Suc_conv_app_nth)

lemma take2_drop: "Suc i < length d \<Longrightarrow> take 2 (drop i d) = [d ! i, d ! Suc i]"
proof -
  assume a: "Suc i < length d"
  have "take 2 (drop i d) = take (Suc (Suc 0)) (drop i d)" by (simp add: numeral_2_eq_2)
  also have "\<dots> = [d ! i, d ! Suc i]"
    using a by (simp add: take_Suc_conv_app_nth)
  finally show ?thesis .
qed

lemma tile_mono_data:
  assumes "length d = n"
  shows "concat (map (\<lambda>i. concat (replicate 2 (take 1 (drop (i * 1) d)))) [0..<n])
       = concat (map (\<lambda>x. [x, x]) d)"
proof -
  have "map (\<lambda>i. concat (replicate 2 (take 1 (drop (i * 1) d)))) [0..<n]
      = map (\<lambda>i. [d ! i, d ! i]) [0..<n]"
    using assms by (intro map_cong[OF refl]) (simp add: take_Suc_conv_app_nth numeral_2_eq_2)
  also have "\<dots> = map (\<lambda>x. [x, x]) (map (\<lambda>i. d ! i) [0..<n])"
    by (simp add: comp_def)
  also have "map (\<lambda>i. d ! i) [0..<n] = d"
    using assms map_nth[of d] by simp
  finally show ?thesis by simp
qed

lemma process_block_mono_to_stereo:
  assumes "\<not> bypass e" "enabled e" "wf_array b" "shape b = [n]" "channels e = 2"
  shows "process_block e b = Inr \<lparr>shape = [n, 2], data = concat (map (\<lambda>x. [x, x]) (data b))\<rparr>"
proof -
  have len: "length (data b) = n" using assms(3,4) by (simp add: wf_array_def)
  have "process_block e b = Inr (np_tile_last (b\<lparr>shape := [n, 1]\<rparr>) 2)"
    using assms by (simp add: process_block_def input_block_channels_def np_newaxis1_def)
  also have "np_tile_last (b\<lparr>shape := [n, 1]\<rparr>) 2
      = \<lparr>shape = [n, 2], data = concat (map (\<lambda>x. [x, x]) (data b))\<rparr>"
    using tile_mono_data[OF len] by (simp add: np_tile_last_def Let_def)
  finally show ?thesis .
qed

lemma process_block_stereo_to_mono:
  assumes "\<not> bypass e" "enabled e" "shape b = [n, 2]" "channels e = 1"
  shows "process_block e b =
     Inr \<lparr>shape = [n, 1],
          data = map (\<lambda>i. sum_list (take 2 (drop (i * 2) (data b))) / 2) [0..<n]\<rparr>"
  using assms
  by (simp add: process_block_def input_block_channels_def np_mean_axis1_keepdims_def)

text \<open>
  C3, as the code has it. For an effect that is enabled and not bypassed: a
  one-dimensional mono block of \<open>n\<close> frames fed to a 2-channel effect gives an
  \<open>n \<times> 2\<close> block whose two channels both equal the input; an \<open>n \<times> 2\<close> block fed to a
  1-channel effect gives the \<open>n \<times> 1\<close> block of per-frame averages; every other
  mismatch of channel counts returns the block it was given. None of the three raises.
\<close>

theorem process_block_adapts_when_active:
  assumes "\<not> bypass e" and "enabled e" and "wf_array b"
  shows "(shape b = [n] \<and> channels e = 2 \<longrightarrow>
            (\<exists>r. process_block e b = Inr r \<and> shape r = [n, 2] \<and> wf_array r
                \<and> (\<forall>i<n. data r ! (i * 2) = data b ! i \<and> data r ! (i * 2 + 1) = data b ! i)))
       \<and> (shape b = [n, 2] \<and> channels e = 1 \<longrightarrow>
            (\<exists>r. process_block e b = Inr r \<and> shape r = [n, 1] \<and> wf_array r
                \<and> (\<forall>i<n. data r ! i = (data b ! (i * 2) + data b ! (i * 2 + 1)) / 2)))
       \<and> (int (input_block_channels b) \<noteq> channels e
            \<and> \<not> (input_block_channels b = 1 \<and> channels e = 2)
            \<and> \<not> (input_block_channels b = 2 \<and> channels e = 1)
          \<longrightarrow> process_block e b = Inr b)"
proof (intro conjI impI)
  assume h: "shape b = [n] \<and> channels e = 2"
  then have len: "length (data b) = n" using assms(3) by (simp add: wf_array_def)
  let ?r = "\<lparr>shape = [n, 2], data = concat (map (\<lambda>x. [x, x]) (data b))\<rparr>"
  have pb: "process_block e b = Inr ?r"
    using process_block_mono_to_stereo[OF assms] h by simp
  have wf: "wf_array ?r"
    using len by (simp add: wf_array_def length_concat comp_def sum_list_triv)
  have el: "\<forall>i<n. data ?r ! (i * 2) = data b ! i \<and> data ?r ! (i * 2 + 1) = data b ! i"
    using concat_pairs_nth[where g="\<lambda>x. x" and xs="data b"] len by simp
  show "\<exists>r. process_block e b = Inr r \<and> shape r = [n, 2] \<and> wf_array r
          \<and> (\<forall>i<n. data r ! (i * 2) = data b ! i \<and> data r ! (i * 2 + 1) = data b ! i)"
    using pb wf el by (intro exI[of _ ?r]) simp
next
  assume h: "shape b = [n, 2] \<and> channels e = 1"
  then have len: "length (data b) = n * 2" using assms(3) by (simp add: wf_array_def)
  let ?r = "\<lparr>shape = [n, 1],
             data = map (\<lambda>i. sum_list (take 2 (drop (i * 2) (data b))) / 2) [0..<n]\<rparr>"
  have pb: "process_block e b = Inr ?r"
    using process_block_stereo_to_mono[OF assms(1,2)] h by simp
  have wf: "wf_array ?r" by (simp add: wf_array_def)
  have el: "data ?r ! i = (data b ! (i * 2) + data b ! (i * 2 + 1)) / 2" if "i < n" for i
  proof -
    have "Suc (i * 2) < length (data b)" using that len by simp
    from take2_drop[OF this] that show ?thesis by simp
  qed
  show "\<exists>r. process_block e b = Inr r \<and> shape r = [n, 1] \<and> wf_array r
          \<and> (\<forall>i<n. data r ! i = (data b ! (i * 2) + data b ! (i * 2 + 1)) / 2)"
    using pb wf el by (intro exI[of _ ?r]) simp
next
  assume "int (input_block_channels b) \<noteq> channels e
            \<and> \<not> (input_block_channels b = 1 \<and> channels e = 2)
            \<and> \<not> (input_block_channels b = 2 \<and> channels e = 1)"
  then show "process_block e b = Inr b"
    by (auto simp: process_block_def)
qed

theorem process_block_adapts_when_active_witness:
  "process_block (AudioEffect_init ''fx'') \<lparr>shape = [3], data = [1, 2, 3]\<rparr>
     = Inr \<lparr>shape = [3, 2], data = [1, 1, 2, 2, 3, 3]\<rparr>
   \<and> process_block ((AudioEffect_init ''fx'')\<lparr>channels := 1\<rparr>) \<lparr>shape = [2, 2], data = [1, 3, 5, 9]\<rparr>
     = Inr \<lparr>shape = [2, 1], data = [2, 7]\<rparr>
   \<and> process_block (AudioEffect_init ''fx'') \<lparr>shape = [1, 6], data = [1, 2, 3, 4, 5, 6]\<rparr>
     = Inr \<lparr>shape = [1, 6], data = [1, 2, 3, 4, 5, 6]\<rparr>"
proof -
  let ?e = "AudioEffect_init ''fx''"
  have a: "\<not> bypass ?e" "enabled ?e" "\<not> bypass (?e\<lparr>channels := 1\<rparr>)" "enabled (?e\<lparr>channels := 1\<rparr>)"
    by (simp_all add: AudioEffect_init_def)
  have w: "wf_array \<lparr>shape = [3], data = [1, 2, 3]\<rparr>"
    "wf_array \<lparr>shape = [2, 2], data = [1, 3, 5, 9]\<rparr>"
    "wf_array \<lparr>shape = [1, 6], data = [1, 2, 3, 4, 5, 6]\<rparr>"
    by (simp_all add: wf_array_def)
  have u: "[0..<3] = [0, 1, 2]" "[0..<2] = [0, 1]"
    by (simp_all add: upt_rec)
  show ?thesis
    using process_block_adapts_when_active [OF a(1) a(2) w(1), of 3]
      process_block_adapts_when_active [OF a(3) a(4) w(2), of 2]
      process_block_adapts_when_active [OF a(1) a(2) w(3), of 1]
    by (simp add: AudioEffect_init_def process_block_def input_block_channels_def
        np_newaxis1_def np_tile_last_def np_mean_axis1_keepdims_def u Let_def numeral_2_eq_2)
qed

text \<open>
  C3 as stated covers every effect. A disabled effect configured for 2 channels hands a
  mono block back as it came: nothing is duplicated.
\<close>

theorem process_block_disabled_counterexample:
  "process_block ((AudioEffect_init ''fx'')\<lparr>enabled := False\<rparr>) \<lparr>shape = [3], data = [1, 2, 3]\<rparr>
     = Inr \<lparr>shape = [3], data = [1, 2, 3]\<rparr>
   \<and> input_block_channels \<lparr>shape = [3], data = [1, 2, 3]\<rparr> = 1
   \<and> channels ((AudioEffect_init ''fx'')\<lparr>enabled := False\<rparr>) = 2"
  by (simp add: process_block_def AudioEffect_init_def input_block_channels_def)

text \<open>
  A mono block given as an \<open>n \<times> 1\<close> array goes through the same duplication branch, and
  the new axis makes the result three-dimensional.
\<close>

lemma mono_2d_gives_rank3:
  assumes "\<not> bypass e" "enabled e" "shape b = [n, 1]" "channels e = 2"
  shows "\<exists>r. process_block e b = Inr r \<and> shape r = [n, 1, 2]"
  using assms
  by (simp add: process_block_def input_block_channels_def np_newaxis1_def np_tile_last_def Let_def)

subsection \<open>Bypassed and disabled effects\<close>

text \<open>
  C4, as the code has it. When the bypass flag is set or the enabled flag is cleared,
  \<^verbatim>\<open>process_block\<close> returns the block it was given, with no channel adaptation; so does
  \<^verbatim>\<open>GainEffect.process_block\<close>.
\<close>

theorem bypass_is_identity_without_adaptation:
  fixes e :: "'a effect_scheme" and g :: gain_effect
  shows "(bypass e \<or> \<not> enabled e \<longrightarrow> process_block e b = Inr b)
       \<and> (bypass g \<or> \<not> enabled g \<longrightarrow> gain_process_block g b = Inr b)"
  by (auto simp: process_block_def gain_process_block_def)

theorem bypass_is_identity_without_adaptation_witness:
  "bypass ((AudioEffect_init ''fx'')\<lparr>bypass := True\<rparr>)
   \<and> process_block ((AudioEffect_init ''fx'')\<lparr>bypass := True\<rparr>) \<lparr>shape = [2], data = [5, 6]\<rparr>
       = Inr \<lparr>shape = [2], data = [5, 6]\<rparr>
   \<and> \<not> enabled (GainEffect_init\<lparr>enabled := False\<rparr>)
   \<and> gain_process_block (GainEffect_init\<lparr>enabled := False\<rparr>) \<lparr>shape = [2], data = [5, 6]\<rparr>
       = Inr \<lparr>shape = [2], data = [5, 6]\<rparr>"
  using bypass_is_identity_without_adaptation
    [of "(AudioEffect_init ''fx'')\<lparr>bypass := True\<rparr>" "\<lparr>shape = [2], data = [5, 6]\<rparr>"
        "GainEffect_init\<lparr>enabled := False\<rparr>"]
  by (simp add: AudioEffect_init_def)

text \<open>
  C4 as stated has the returned block carry the effect's channel count. A bypassed
  2-channel effect returns a mono block as mono.
\<close>

theorem bypass_no_adaptation_counterexample:
  "process_block ((AudioEffect_init ''fx'')\<lparr>bypass := True\<rparr>) \<lparr>shape = [2], data = [5, 6]\<rparr>
     = Inr \<lparr>shape = [2], data = [5, 6]\<rparr>
   \<and> input_block_channels \<lparr>shape = [2], data = [5, 6]\<rparr> = 1
   \<and> channels ((AudioEffect_init ''fx'')\<lparr>bypass := True\<rparr>) = 2"
  by (simp add: process_block_def AudioEffect_init_def input_block_channels_def)

subsection \<open>Setting parameters\<close>

lemma float_overflow_ge: "2 ^ 1023 \<le> float_overflow"
proof -
  have "(2::real) ^ 970 \<le> 2 ^ 1023" by (rule power_increasing) simp_all
  moreover have "(2::real) ^ 1024 = 2 * 2 ^ 1023" by simp
  ultimately show ?thesis by (simp add: float_overflow_def)
qed

lemma float_overflow_gt_small: "x \<le> 2 ^ 20 \<Longrightarrow> x < float_overflow"
proof -
  assume "x \<le> 2 ^ 20"
  also have "(2::real) ^ 20 < 2 ^ 1023" by (rule power_strict_increasing) simp_all
  finally show ?thesis using float_overflow_ge by simp
qed

lemma float_overflow_le_pow350: "float_overflow \<le> 10 powr 350"
proof -
  have "float_overflow \<le> 2 ^ 1024" by (simp add: float_overflow_def)
  also have "(2::real) ^ 1024 \<le> 2 ^ 1050" by (rule power_increasing) simp_all
  also have "\<dots> = (8::real) ^ 350"
  proof -
    have "(8::real) ^ 350 = (2 ^ 3) ^ 350" by simp
    also have "\<dots> = 2 ^ 1050" by (simp only: power_mult [symmetric]) simp
    finally show ?thesis by simp
  qed
  also have "\<dots> \<le> (10::real) ^ 350" by (rule power_mono) simp_all
  also have "\<dots> = 10 powr 350" by simp
  finally show ?thesis .
qed

lemma py_float_small:
  "py_num v = Some r \<Longrightarrow> \<bar>r\<bar> \<le> 2 ^ 20 \<Longrightarrow> py_float v = Inr r"
  using float_overflow_gt_small[of "\<bar>r\<bar>"] by (simp add: py_float_def)

lemma gain_of_values:
  "gain_of (PyFloat 0) = Inr 1" "gain_of (PyFloat 20) = Inr 10" "gain_of (PyInt 20) = Inr 10"
  "gain_of PyNone = Inl TypeError" "gain_of (PyFloat 7000) = Inl OverflowError"
proof -
  have a: "py_float (PyFloat 0) = Inr 0" "py_float (PyFloat 20) = Inr 20"
    "py_float (PyInt 20) = Inr 20" "py_float (PyFloat 7000) = Inr 7000"
    by (simp_all add: py_float_small)
  have b: "py_pow10 0 = Inr 1" "py_pow10 1 = Inr 10"
    using float_overflow_gt_small[of 1] float_overflow_gt_small[of 10]
    by (simp_all add: py_pow10_def)
  have c: "py_pow10 350 = Inl OverflowError"
    using float_overflow_le_pow350 by (simp add: py_pow10_def)
  show "gain_of (PyFloat 0) = Inr 1" "gain_of (PyFloat 20) = Inr 10" "gain_of (PyInt 20) = Inr 10"
    "gain_of PyNone = Inl TypeError" "gain_of (PyFloat 7000) = Inl OverflowError"
    using a b c by (simp_all add: gain_of_def py_float_def)
qed

lemma gain_hook_gain_db:
  "gain_on_parameter_change ''gain_db'' v e =
     (case py_float v of
        Inl ex \<Rightarrow> Raised ex e
      | Inr d \<Rightarrow>
          (case gain_of v of
             Inl ex \<Rightarrow> Raised ex (e\<lparr>parameters := (parameters e)(''gain_db'' \<mapsto> PyFloat d)\<rparr>)
           | Inr g \<Rightarrow> Returned (e\<lparr>parameters := (parameters e)(''gain_db'' \<mapsto> PyFloat d),
                                  gain_linear := g\<rparr>)))"
  by (simp add: gain_on_parameter_change_def gain_of_def Let_def split: sum.splits)

lemma gain_init_eq:
  "GainEffect_init =
     \<lparr>name = ''Gain'', enabled = True, bypass = False,
      parameters = [''gain_db'' \<mapsto> PyFloat 0],
      sample_rate = 44100, channels = 2, gain_linear = 1\<rparr>"
  using gain_of_values(1) py_float_small[of "PyFloat 0" 0]
  by (simp add: GainEffect_init_def gain_hook_gain_db)

lemma gain_init_fields:
  "parameters GainEffect_init ''gain_db'' = Some (PyFloat 0)" "gain_linear GainEffect_init = 1"
  "sample_rate GainEffect_init = 44100" "channels GainEffect_init = 2"
  by (simp_all add: gain_init_eq)

lemma gain_follows_init: "gain_follows_parameter GainEffect_init"
  by (simp add: gain_follows_parameter_def gain_init_fields gain_of_values)

lemma gain_of_float_of:
  "py_float v = Inr d \<Longrightarrow> gain_of (PyFloat d) = gain_of v"
  by (auto simp: gain_of_def py_float_def split: option.splits if_splits)

lemma gain_of_py_eq: "\<not> py_ne a b \<Longrightarrow> gain_of a = gain_of b"
  by (simp add: py_ne_def gain_of_def py_float_def)

lemma gain_set_parameter_absent:
  "parameters e nm = None \<Longrightarrow> set_parameter oc nm v e = Returned e"
  by (simp add: set_parameter_def)

lemma gain_set_other_name:
  assumes "nm \<noteq> ''gain_db''" and "parameters g nm = Some old"
  shows "set_parameter gain_on_parameter_change nm v g =
           Returned (if py_ne old v then g\<lparr>parameters := (parameters g)(nm \<mapsto> v)\<rparr> else g)"
  using assms by (simp add: set_parameter_def gain_on_parameter_change_def)

lemma gain_set_gain_db_number:
  assumes "gain_follows_parameter g" and "gain_of v = Inr l"
  shows "\<exists>g'. set_parameter gain_on_parameter_change ''gain_db'' v g = Returned g'
            \<and> (\<exists>v'. parameters g' ''gain_db'' = Some v' \<and> \<not> py_ne v' v)
            \<and> gain_linear g' = l"
proof -
  from assms(1) obtain old where old: "parameters g ''gain_db'' = Some old"
    by (auto simp: gain_follows_parameter_def split: option.splits)
  from assms(2) obtain d where d: "py_float v = Inr d"
    by (auto simp: gain_of_def split: sum.splits)
  then have pn: "py_num v = Some d" by (auto simp: py_float_def split: option.splits if_splits)
  show ?thesis
  proof (cases "py_ne old v")
    case True
    then show ?thesis
      using old assms(2) d pn
      by (simp add: set_parameter_def gain_hook_gain_db py_ne_def)
  next
    case False
    then have "gain_of old = Inr l" using assms(2) gain_of_py_eq[of old v] by simp
    then have "gain_linear g = l"
      using assms(1) old by (simp add: gain_follows_parameter_def)
    then show ?thesis
      using False old by (simp add: set_parameter_def)
  qed
qed

lemma gain_follows_preserved:
  assumes "gain_follows_parameter g"
  shows "gain_follows_parameter (state_of (set_parameter gain_on_parameter_change nm v g))"
proof (cases "parameters g nm")
  case None
  then show ?thesis using assms by (simp add: set_parameter_def)
next
  case (Some old)
  show ?thesis
  proof (cases "nm = ''gain_db''")
    case False
    from gain_set_other_name[OF False Some, of v] assms False show ?thesis
      by (auto simp: gain_follows_parameter_def split: option.splits sum.splits)
  next
    case True
    show ?thesis
    proof (cases "py_ne old v")
      case False
      then show ?thesis using assms Some by (simp add: set_parameter_def)
    next
      case ne: True
      show ?thesis
      proof (cases "py_float v")
        case (Inl ex)
        then have "gain_of v = Inl ex" by (simp add: gain_of_def)
        then show ?thesis
          using ne True Some Inl
          by (simp add: set_parameter_def gain_hook_gain_db gain_follows_parameter_def)
      next
        case (Inr d)
        show ?thesis
          using ne True Some Inr gain_of_float_of[OF Inr]
          by (auto simp: set_parameter_def gain_hook_gain_db gain_follows_parameter_def
              split: sum.splits)
      qed
    qed
  qed
qed

lemma gain_follows_seq:
  "gain_follows_parameter g \<Longrightarrow>
   gain_follows_parameter (set_parameter_seq gain_on_parameter_change nm vs g)"
  by (induction vs arbitrary: g) (simp_all add: gain_follows_preserved)

lemma set_parameter_seq_snoc:
  "set_parameter_seq oc nm (vs @ [x]) e =
     state_of (set_parameter oc nm x (set_parameter_seq oc nm vs e))"
  by (induction vs arbitrary: e) simp_all

lemma chorus_init_voices:
  "map lfo_rate_hz (voices_data (Chorus_init (\<lambda>i. (0, 0, 0)))) = [1 / 5, 1 / 5, 1 / 5]"
  "parameters (Chorus_init (\<lambda>i. (0, 0, 0))) ''rate_hz'' = Some (PyFloat (1 / 5))"
proof -
  have u: "[0..<3] = [0, 1, 2]" by (simp add: upt_rec)
  have f: "py_float (PyInt 44100) = Inr 44100" "py_float (PyFloat (1 / 5)) = Inr (1 / 5)"
    by (simp_all add: py_float_small)
  show "map lfo_rate_hz (voices_data (Chorus_init (\<lambda>i. (0, 0, 0)))) = [1 / 5, 1 / 5, 1 / 5]"
    "parameters (Chorus_init (\<lambda>i. (0, 0, 0))) ''rate_hz'' = Some (PyFloat (1 / 5))"
    by (simp_all add: Chorus_init_def chorus_reset_def Let_def f u)
qed

text \<open>
  C5, as the code has it. For every effect class: a name that is not in the parameter
  mapping leaves the effect as it was and returns; a name that is in it with a value
  equal to the stored one does the same; otherwise the value is written into the
  mapping and the class's \<^verbatim>\<open>_on_parameter_change\<close> runs on it before the call returns.
  For a GainEffect whose gain follows its parameter, a name in the mapping and, when the
  name is \<^verbatim>\<open>gain_db\<close>, a value from which a linear gain can be computed (a number
  within float range whose gain does not overflow): the call returns, the mapping holds
  a value equal to the one given, the gain still follows the parameter, and for
  \<^verbatim>\<open>gain_db\<close> the linear gain is the one computed from the value.
\<close>

theorem set_parameter_known_number:
  fixes e :: "'a effect_scheme" and g :: gain_effect
  shows "(parameters e nm = None \<longrightarrow> set_parameter oc nm v e = Returned e)
       \<and> (parameters e nm = Some old \<longrightarrow>
            set_parameter oc nm v e =
              (if py_ne old v then oc nm v (e\<lparr>parameters := (parameters e)(nm \<mapsto> v)\<rparr>)
               else Returned e))
       \<and> (gain_follows_parameter g \<and> parameters g nm \<noteq> None
            \<and> (nm = ''gain_db'' \<longrightarrow> gain_of v = Inr l) \<longrightarrow>
          (\<exists>g'. set_parameter gain_on_parameter_change nm v g = Returned g'
               \<and> (\<exists>v'. parameters g' nm = Some v' \<and> \<not> py_ne v' v)
               \<and> gain_follows_parameter g'
               \<and> (nm = ''gain_db'' \<longrightarrow> gain_linear g' = l)))"
proof -
  have p1: "set_parameter oc nm v e = Returned e" if "parameters e nm = None"
    using that by (rule gain_set_parameter_absent)
  have p2: "set_parameter oc nm v e =
              (if py_ne old v then oc nm v (e\<lparr>parameters := (parameters e)(nm \<mapsto> v)\<rparr>)
               else Returned e)" if "parameters e nm = Some old"
    using that by (simp add: set_parameter_def)
  have p3: "\<exists>g'. set_parameter gain_on_parameter_change nm v g = Returned g'
               \<and> (\<exists>v'. parameters g' nm = Some v' \<and> \<not> py_ne v' v)
               \<and> gain_follows_parameter g'
               \<and> (nm = ''gain_db'' \<longrightarrow> gain_linear g' = l)"
    if h: "gain_follows_parameter g \<and> parameters g nm \<noteq> None
            \<and> (nm = ''gain_db'' \<longrightarrow> gain_of v = Inr l)"
  proof -
    from h obtain old' where old: "parameters g nm = Some old'" by auto
    have fol: "gain_follows_parameter (state_of (set_parameter gain_on_parameter_change nm v g))"
      using h by (simp add: gain_follows_preserved)
    show ?thesis
    proof (cases "nm = ''gain_db''")
      case False
      from gain_set_other_name[OF False old, of v] fol False old show ?thesis
        by (auto simp: py_ne_def)
    next
      case True
      with h have l: "gain_of v = Inr l" by simp
      from gain_set_gain_db_number[OF _ l, of g] h obtain g' v' where
        g': "set_parameter gain_on_parameter_change ''gain_db'' v g = Returned g'"
        "parameters g' ''gain_db'' = Some v'" "\<not> py_ne v' v" "gain_linear g' = l"
        by auto
      then show ?thesis using fol True by auto
    qed
  qed
  from p1 p2 p3 show ?thesis by blast
qed

theorem set_parameter_known_number_witness:
  "set_parameter AudioEffect_on_parameter_change ''gain_db'' (PyFloat 3) (AudioEffect_init ''fx'')
     = Returned (AudioEffect_init ''fx'')
   \<and> gain_follows_parameter GainEffect_init
   \<and> parameters GainEffect_init ''gain_db'' = Some (PyFloat 0)
   \<and> gain_of (PyInt 20) = Inr 10
   \<and> (case set_parameter gain_on_parameter_change ''gain_db'' (PyInt 20) GainEffect_init of
        Returned s \<Rightarrow> parameters s ''gain_db'' = Some (PyFloat 20) \<and> gain_linear s = 10
      | Raised ex s \<Rightarrow> False)"
proof -
  have f: "py_float (PyInt 20) = Inr 20" by (simp add: py_float_small)
  have r: "set_parameter gain_on_parameter_change ''gain_db'' (PyInt 20) GainEffect_init
      = Returned (GainEffect_init\<lparr>parameters := (parameters GainEffect_init)(''gain_db'' \<mapsto> PyFloat 20),
                                  gain_linear := 10\<rparr>)"
    by (simp add: set_parameter_def gain_init_fields py_ne_def gain_hook_gain_db f gain_of_values)
  have a: "set_parameter AudioEffect_on_parameter_change ''gain_db'' (PyFloat 3) (AudioEffect_init ''fx'')
     = Returned (AudioEffect_init ''fx'')"
    using set_parameter_known_number
      [of "AudioEffect_init ''fx''" "''gain_db''" AudioEffect_on_parameter_change "PyFloat 3"]
    by (simp add: AudioEffect_init_def)
  have h: "gain_follows_parameter GainEffect_init \<and> parameters GainEffect_init ''gain_db'' \<noteq> None
            \<and> (''gain_db'' = ''gain_db'' \<longrightarrow> gain_of (PyInt 20) = Inr 10)"
    by (simp add: gain_init_fields gain_follows_init gain_of_values)
  from set_parameter_known_number
      [of GainEffect_init "''gain_db''" gain_on_parameter_change "PyInt 20"
          "PyFloat 0" GainEffect_init 10] h
  obtain g' where g': "set_parameter gain_on_parameter_change ''gain_db'' (PyInt 20) GainEffect_init
      = Returned g'" "gain_linear g' = 10"
    by blast
  from g' r have "gain_linear (GainEffect_init\<lparr>parameters := (parameters GainEffect_init)(''gain_db'' \<mapsto> PyFloat 20),
                                  gain_linear := 10\<rparr>) = 10" by simp
  with a r show ?thesis
    by (simp add: gain_init_fields gain_follows_init gain_of_values)
qed

text \<open>
  C5 as stated has, for every effect, the derived state recomputed on return and no torn
  state ever observable. On a GainEffect set to 20 dB, \<^verbatim>\<open>set_parameter('gain_db', None)\<close>
  writes \<^verbatim>\<open>None\<close> and then raises TypeError, the linear gain still 10; on a new one,
  \<^verbatim>\<open>set_parameter('gain_db', 7000.0)\<close> writes 7000.0 and then raises OverflowError, the
  linear gain still 1. On a Chorus, \<^verbatim>\<open>set_parameter('rate_hz', 0.5)\<close> returns with every
  voice's \<^verbatim>\<open>lfo_rate_hz\<close> still the one computed from 0.2.
\<close>

theorem set_parameter_torn_counterexample:
  "(case set_parameter gain_on_parameter_change ''gain_db'' PyNone
           (state_of (set_parameter gain_on_parameter_change ''gain_db'' (PyFloat 20) GainEffect_init)) of
      Returned s \<Rightarrow> False
    | Raised ex s \<Rightarrow> ex = TypeError \<and> parameters s ''gain_db'' = Some PyNone \<and> gain_linear s = 10)
   \<and> (case set_parameter gain_on_parameter_change ''gain_db'' (PyFloat 7000) GainEffect_init of
      Returned s \<Rightarrow> False
    | Raised ex s \<Rightarrow> ex = OverflowError \<and> parameters s ''gain_db'' = Some (PyFloat 7000)
                      \<and> gain_linear s = 1)
   \<and> (case set_parameter (chorus_on_parameter_change (\<lambda>i. (0, 0, 0))) ''rate_hz'' (PyFloat (1 / 2))
             (Chorus_init (\<lambda>i. (0, 0, 0))) of
      Returned s \<Rightarrow> parameters s ''rate_hz'' = Some (PyFloat (1 / 2))
                    \<and> map lfo_rate_hz (voices_data s) = [1 / 5, 1 / 5, 1 / 5]
    | Raised ex s \<Rightarrow> False)"
proof -
  have f: "py_float (PyFloat 20) = Inr 20" "py_float (PyFloat 7000) = Inr 7000"
    "py_float PyNone = Inl TypeError"
    by (simp_all add: py_float_small) (simp add: py_float_def)
  have a: "set_parameter gain_on_parameter_change ''gain_db'' (PyFloat 20) GainEffect_init
      = Returned (GainEffect_init\<lparr>parameters := (parameters GainEffect_init)(''gain_db'' \<mapsto> PyFloat 20),
                                  gain_linear := 10\<rparr>)"
    by (simp add: set_parameter_def gain_init_fields py_ne_def gain_hook_gain_db f gain_of_values)
  have b: "set_parameter gain_on_parameter_change ''gain_db'' PyNone
        (GainEffect_init\<lparr>parameters := (parameters GainEffect_init)(''gain_db'' \<mapsto> PyFloat 20),
                                  gain_linear := 10\<rparr>)
      = Raised TypeError
         (GainEffect_init\<lparr>parameters := (parameters GainEffect_init)(''gain_db'' \<mapsto> PyNone),
                                  gain_linear := 10\<rparr>)"
    by (simp add: set_parameter_def py_ne_def gain_hook_gain_db f)
  have c: "set_parameter gain_on_parameter_change ''gain_db'' (PyFloat 7000) GainEffect_init
      = Raised OverflowError
          (GainEffect_init\<lparr>parameters := (parameters GainEffect_init)(''gain_db'' \<mapsto> PyFloat 7000)\<rparr>)"
    by (simp add: set_parameter_def gain_init_fields py_ne_def gain_hook_gain_db f gain_of_values)
  have d: "set_parameter (chorus_on_parameter_change (\<lambda>i. (0, 0, 0))) ''rate_hz'' (PyFloat (1 / 2))
             (Chorus_init (\<lambda>i. (0, 0, 0)))
      = Returned ((Chorus_init (\<lambda>i. (0, 0, 0)))
           \<lparr>parameters := (parameters (Chorus_init (\<lambda>i. (0, 0, 0))))(''rate_hz'' \<mapsto> PyFloat (1 / 2))\<rparr>)"
    by (simp add: set_parameter_def chorus_init_voices py_ne_def chorus_on_parameter_change_def)
  show ?thesis
    by (simp add: a b c d gain_init_fields chorus_init_voices)
qed

text \<open>
  C6, as the code has it. From a GainEffect whose gain follows its parameter, after any
  sequence of \<^verbatim>\<open>set_parameter('gain_db', ...)\<close> calls, whatever their values and
  whether or not they raised, a last call with a value \<open>x\<close> from which a linear gain can
  be computed returns, and the linear gain is the one a single call with \<open>x\<close> gives on a
  new GainEffect.
\<close>

theorem set_parameter_history_independent:
  assumes "gain_follows_parameter g" and "gain_of x = Inr l"
  shows "(\<exists>g'. set_parameter gain_on_parameter_change ''gain_db'' x
                 (set_parameter_seq gain_on_parameter_change ''gain_db'' vs g) = Returned g')
       \<and> (\<exists>f. set_parameter gain_on_parameter_change ''gain_db'' x GainEffect_init = Returned f
              \<and> gain_linear (set_parameter_seq gain_on_parameter_change ''gain_db'' (vs @ [x]) g)
                  = gain_linear f)
       \<and> gain_linear (set_parameter_seq gain_on_parameter_change ''gain_db'' (vs @ [x]) g) = l"
proof -
  let ?s = "set_parameter_seq gain_on_parameter_change ''gain_db'' vs g"
  have fs: "gain_follows_parameter ?s" using assms(1) by (rule gain_follows_seq)
  from gain_set_gain_db_number[OF fs assms(2)] obtain g' where
    g': "set_parameter gain_on_parameter_change ''gain_db'' x ?s = Returned g'"
    "gain_linear g' = l" by auto
  from gain_set_gain_db_number[OF gain_follows_init assms(2)] obtain f where
    f: "set_parameter gain_on_parameter_change ''gain_db'' x GainEffect_init = Returned f"
    "gain_linear f = l" by auto
  show ?thesis using g' f by (simp add: set_parameter_seq_snoc)
qed

theorem set_parameter_history_independent_witness:
  "gain_follows_parameter GainEffect_init \<and> gain_of (PyInt 20) = Inr 10
   \<and> gain_linear (set_parameter_seq gain_on_parameter_change ''gain_db''
        ([PyFloat 3, PyNone, PyFloat 7000, PyFloat (-6)] @ [PyInt 20]) GainEffect_init) = 10
   \<and> gain_linear (state_of (set_parameter gain_on_parameter_change ''gain_db'' (PyInt 20) GainEffect_init)) = 10"
  using set_parameter_history_independent
      [OF gain_follows_init gain_of_values(3), of "[PyFloat 3, PyNone, PyFloat 7000, PyFloat (-6)]"]
    gain_follows_init gain_of_values(3)
  by auto

text \<open>
  C6 as stated covers every last value. Two sequences that both end with \<^verbatim>\<open>None\<close>
  leave different gains behind, and so do two that both end with 7000.0, whose gain
  overflows.
\<close>

theorem set_parameter_history_counterexample:
  "gain_linear (set_parameter_seq gain_on_parameter_change ''gain_db'' [PyFloat 20, PyNone] GainEffect_init) = 10
   \<and> gain_linear (set_parameter_seq gain_on_parameter_change ''gain_db'' [PyNone] GainEffect_init) = 1
   \<and> gain_linear (set_parameter_seq gain_on_parameter_change ''gain_db'' [PyFloat 20, PyFloat 7000] GainEffect_init) = 10
   \<and> gain_linear (set_parameter_seq gain_on_parameter_change ''gain_db'' [PyFloat 7000] GainEffect_init) = 1"
proof -
  have f: "py_float (PyFloat 20) = Inr 20" "py_float (PyFloat 7000) = Inr 7000"
    "py_float PyNone = Inl TypeError"
    by (simp_all add: py_float_small) (simp add: py_float_def)
  show ?thesis
    by (simp add: set_parameter_def gain_init_eq py_ne_def gain_hook_gain_db f gain_of_values)
qed

subsection \<open>Stream properties\<close>

lemma set_stream_properties_unfold:
  "set_stream_properties oc rs sr ch e =
     (if sample_rate e \<noteq> sr \<or> channels e \<noteq> ch
      then (case oc ''_stream_props_changed'' PyNone (e\<lparr>sample_rate := sr, channels := ch\<rparr>) of
              Raised ex s \<Rightarrow> Raised ex s
            | Returned s \<Rightarrow> rs s)
      else Returned e)"
proof -
  have a: "sample_rate e = sr \<Longrightarrow> e\<lparr>sample_rate := sr, channels := ch\<rparr> = e\<lparr>channels := ch\<rparr>"
    by (cases e) simp
  have b: "channels e = ch \<Longrightarrow> e\<lparr>sample_rate := sr, channels := ch\<rparr> = e\<lparr>sample_rate := sr\<rparr>"
    by (cases e) simp
  show ?thesis
    by (auto simp: set_stream_properties_def Let_def a b)
qed

text \<open>
  C7. For every effect class whose \<^verbatim>\<open>_on_parameter_change\<close> (told of a stream-property
  change) and \<^verbatim>\<open>reset\<close> leave the stored sample rate and channel count alone: after
  \<^verbatim>\<open>set_stream_properties(sample_rate, channels)\<close> returns, the stored values are the
  arguments; when either differed from the stored value, the state returned is the one
  obtained by running \<^verbatim>\<open>_on_parameter_change("_stream_props_changed", None)\<close> and then
  \<^verbatim>\<open>reset()\<close> on the updated effect, and when neither differed the effect is untouched.
  When the two methods always return, so does \<^verbatim>\<open>set_stream_properties\<close>.
\<close>

theorem set_stream_properties_reconfigures:
  fixes e :: "'a effect_scheme"
  assumes "\<forall>x y. oc ''_stream_props_changed'' PyNone x = Returned y \<longrightarrow>
                 sample_rate y = sample_rate x \<and> channels y = channels x"
    and "\<forall>x y. rs x = Returned y \<longrightarrow> sample_rate y = sample_rate x \<and> channels y = channels x"
  shows "(set_stream_properties oc rs sr ch e = Returned e' \<longrightarrow>
            sample_rate e' = sr \<and> channels e' = ch
            \<and> (if sample_rate e \<noteq> sr \<or> channels e \<noteq> ch
               then \<exists>e1. oc ''_stream_props_changed'' PyNone (e\<lparr>sample_rate := sr, channels := ch\<rparr>)
                            = Returned e1 \<and> rs e1 = Returned e'
               else e' = e))
       \<and> ((\<forall>x. \<exists>y. oc ''_stream_props_changed'' PyNone x = Returned y) \<and> (\<forall>x. \<exists>y. rs x = Returned y)
            \<longrightarrow> (\<exists>e''. set_stream_properties oc rs sr ch e = Returned e''))"
proof -
  have part1: "sample_rate e' = sr \<and> channels e' = ch
            \<and> (if sample_rate e \<noteq> sr \<or> channels e \<noteq> ch
               then \<exists>e1. oc ''_stream_props_changed'' PyNone (e\<lparr>sample_rate := sr, channels := ch\<rparr>)
                            = Returned e1 \<and> rs e1 = Returned e'
               else e' = e)"
    if r: "set_stream_properties oc rs sr ch e = Returned e'"
  proof (cases "sample_rate e \<noteq> sr \<or> channels e \<noteq> ch")
    case False
    with r show ?thesis by (simp add: set_stream_properties_unfold)
  next
    case True
    let ?e2 = "e\<lparr>sample_rate := sr, channels := ch\<rparr>"
    from r True obtain e1 where e1: "oc ''_stream_props_changed'' PyNone ?e2 = Returned e1"
      and e': "rs e1 = Returned e'"
      by (auto simp: set_stream_properties_unfold split: outcome.splits)
    from assms(1) e1 have "sample_rate e1 = sample_rate ?e2 \<and> channels e1 = channels ?e2"
      by blast
    then have "sample_rate e1 = sr \<and> channels e1 = ch" by simp
    moreover from assms(2) e' have "sample_rate e' = sample_rate e1 \<and> channels e' = channels e1"
      by blast
    ultimately show ?thesis using True e1 e' by auto
  qed
  have part2: "\<exists>e''. set_stream_properties oc rs sr ch e = Returned e''"
    if t: "(\<forall>x. \<exists>y. oc ''_stream_props_changed'' PyNone x = Returned y) \<and> (\<forall>x. \<exists>y. rs x = Returned y)"
  proof (cases "sample_rate e \<noteq> sr \<or> channels e \<noteq> ch")
    case False
    then show ?thesis by (simp add: set_stream_properties_unfold)
  next
    case True
    from t obtain e1 where e1: "oc ''_stream_props_changed'' PyNone (e\<lparr>sample_rate := sr, channels := ch\<rparr>) = Returned e1"
      by blast
    from t obtain e2 where "rs e1 = Returned e2" by blast
    with e1 True show ?thesis by (simp add: set_stream_properties_unfold)
  qed
  from part1 part2 show ?thesis by blast
qed

theorem set_stream_properties_reconfigures_witness:
  "set_stream_properties gain_on_parameter_change AudioEffect_reset 48000 1 GainEffect_init
     = Returned (GainEffect_init\<lparr>sample_rate := 48000, channels := 1\<rparr>)
   \<and> sample_rate GainEffect_init \<noteq> 48000
   \<and> set_stream_properties gain_on_parameter_change AudioEffect_reset 44100 2 GainEffect_init
     = Returned GainEffect_init"
proof -
  have h1: "\<forall>x y. gain_on_parameter_change ''_stream_props_changed'' PyNone x = Returned y \<longrightarrow>
               sample_rate y = sample_rate x \<and> channels y = channels x"
    by (simp add: gain_on_parameter_change_def)
  have h2: "\<forall>(x :: gain_effect) y. AudioEffect_reset x = Returned y \<longrightarrow>
               sample_rate y = sample_rate x \<and> channels y = channels x"
    by (simp add: AudioEffect_reset_def)
  have f: "sample_rate GainEffect_init = 44100" "channels GainEffect_init = 2"
    by (simp_all add: gain_init_fields)
  show ?thesis
    using set_stream_properties_reconfigures
        [where oc = gain_on_parameter_change and rs = AudioEffect_reset, OF h1 h2,
         of 48000 1 GainEffect_init "GainEffect_init\<lparr>sample_rate := 48000, channels := 1\<rparr>"]
      set_stream_properties_reconfigures
        [where oc = gain_on_parameter_change and rs = AudioEffect_reset, OF h1 h2,
         of 44100 2 GainEffect_init GainEffect_init]
    by (simp add: f set_stream_properties_unfold gain_on_parameter_change_def AudioEffect_reset_def)
qed

section \<open>HostAppInterface: properties\<close>

subsection \<open>Audio properties\<close>

text \<open>
  C10, as the code has it. With no engine registered, or one lacking either attribute,
  \<^verbatim>\<open>get_audio_properties\<close> returns (44100, 2). With an engine whose \<^verbatim>\<open>sample_rate\<close> and
  \<^verbatim>\<open>channels\<close> hold numbers it returns their \<^verbatim>\<open>int()\<close> values as a pair.
\<close>

theorem get_audio_properties_numbers:
  "(audio_engine_ref h = None \<longrightarrow> get_audio_properties h = Inr (44100, 2))
   \<and> (audio_engine_ref h = Some eng \<and> (eng ''sample_rate'' = None \<or> eng ''channels'' = None)
        \<longrightarrow> get_audio_properties h = Inr (44100, 2))
   \<and> (audio_engine_ref h = Some eng \<and> eng ''sample_rate'' = Some (Data v)
        \<and> eng ''channels'' = Some (Data w) \<and> py_num v \<noteq> None \<and> py_num w \<noteq> None
        \<longrightarrow> (\<exists>s c. py_int v = Inr s \<and> py_int w = Inr c \<and> get_audio_properties h = Inr (s, c)))"
proof (intro conjI impI)
  assume "audio_engine_ref h = None"
  then show "get_audio_properties h = Inr (44100, 2)" by (simp add: get_audio_properties_def)
next
  assume "audio_engine_ref h = Some eng \<and> (eng ''sample_rate'' = None \<or> eng ''channels'' = None)"
  then show "get_audio_properties h = Inr (44100, 2)"
    by (auto simp: get_audio_properties_def split: option.splits)
next
  assume h: "audio_engine_ref h = Some eng \<and> eng ''sample_rate'' = Some (Data v)
        \<and> eng ''channels'' = Some (Data w) \<and> py_num v \<noteq> None \<and> py_num w \<noteq> None"
  have num: "py_num u \<noteq> None \<Longrightarrow> \<exists>i. py_int u = Inr i" for u by (cases u) simp_all
  from h num[of v] num[of w] obtain s c where "py_int v = Inr s" "py_int w = Inr c" by auto
  with h show "\<exists>s c. py_int v = Inr s \<and> py_int w = Inr c \<and> get_audio_properties h = Inr (s, c)"
    by (simp add: get_audio_properties_def)
qed

theorem get_audio_properties_numbers_witness:
  "get_audio_properties
     (\<lparr>audio_engine_ref = None, main_player_ui_ref = None, status_bar_var = None\<rparr> :: unit host_app)
     = Inr (44100, 2)
   \<and> get_audio_properties
     (\<lparr>audio_engine_ref = Some (AudioEngine_component(''channels'' := None)),
       main_player_ui_ref = None, status_bar_var = None\<rparr> :: unit host_app)
     = Inr (44100, 2)
   \<and> get_audio_properties
     (\<lparr>audio_engine_ref = Some (AudioEngine_component(''sample_rate'' \<mapsto> Data (PyFloat (96001 / 2)))),
       main_player_ui_ref = None, status_bar_var = None\<rparr> :: unit host_app)
     = Inr (48000, 2)"
proof -
  let ?h1 = "\<lparr>audio_engine_ref = None, main_player_ui_ref = None, status_bar_var = None\<rparr> :: unit host_app"
  let ?c2 = "(AudioEngine_component(''channels'' := None)) :: unit component"
  let ?h2 = "\<lparr>audio_engine_ref = Some ?c2, main_player_ui_ref = None, status_bar_var = None\<rparr>"
  let ?c3 = "(AudioEngine_component(''sample_rate'' \<mapsto> Data (PyFloat (96001 / 2)))) :: unit component"
  let ?h3 = "\<lparr>audio_engine_ref = Some ?c3, main_player_ui_ref = None, status_bar_var = None\<rparr>"
  have fl: "\<lfloor>96001 / 2 :: real\<rfloor> = 48000" by linarith
  show ?thesis
    using get_audio_properties_numbers [of ?h1]
      get_audio_properties_numbers [of ?h2 ?c2]
      get_audio_properties_numbers [of ?h3 ?c3 "PyFloat (96001 / 2)" "PyInt 2"]
    by (simp add: AudioEngine_component_def fl)
qed

text \<open>
  C10 as stated has the function never raise. An engine whose \<^verbatim>\<open>sample_rate\<close> attribute
  exists and holds \<^verbatim>\<open>None\<close> passes the \<^verbatim>\<open>hasattr\<close> guard, and \<^verbatim>\<open>int(None)\<close> raises
  TypeError.
\<close>

theorem get_audio_properties_raises_counterexample:
  "get_audio_properties
     (\<lparr>audio_engine_ref = Some (AudioEngine_component(''sample_rate'' \<mapsto> Data PyNone)),
       main_player_ui_ref = None, status_bar_var = None\<rparr> :: unit host_app)
   = Inl TypeError"
  by (simp add: get_audio_properties_def AudioEngine_component_def)

subsection \<open>Playback actions\<close>

lemma then_success_invoke:
  "then_success (invoke t c m a) = operation_outcome t m False (c m) a"
  by (auto simp: then_success_def invoke_def operation_outcome_def
      split: option.splits sum.splits member.splits prod.splits)

lemma outcome_guard_some:
  "x \<noteq> None \<Longrightarrow> operation_outcome t m True x a = operation_outcome t m False x a"
  by (auto simp: operation_outcome_def)

lemma outcome_guard_none: "operation_outcome t m True None a = guard_failed"
  by (simp add: operation_outcome_def guard_failed_def)

lemma operation_member_Engine: "operation_member h eng Engine m = eng m"
  by (simp add: operation_member_def)

lemma player_ui_action_outcome:
  "player_ui_action h m params keys =
     operation_outcome PlayerUI m True (operation_member h eng PlayerUI m) (required params keys)"
  by (auto simp: player_ui_action_def operation_member_def then_success_invoke hasattr_def
      outcome_guard_some outcome_guard_none split: option.splits)

lemma dispatch_unknown:
  "action \<notin> set playback_actions \<Longrightarrow>
     playback_dispatch h eng action params = ([], Inr (False, Some (UnknownAction action)))"
  by (simp add: playback_actions_def playback_dispatch_def)

lemma operation_unknown:
  "action \<notin> set playback_actions \<Longrightarrow> playback_operation eng action = None"
  by (simp add: playback_actions_def playback_operation_def)

lemma dispatch_table:
  "\<forall>a \<in> set playback_actions. \<forall>t m g.
     playback_operation eng a = Some (t, m, g) \<longrightarrow>
       playback_dispatch h eng a params =
         operation_outcome t m g (operation_member h eng t m) (operation_arguments a params)"
  by (simp add: playback_actions_def playback_operation_def playback_dispatch_def
      operation_arguments_def then_success_invoke hasattr_def
      outcome_guard_some outcome_guard_none
      player_ui_action_outcome [where eng = eng] operation_member_Engine)

lemma operation_known:
  "\<forall>a \<in> set playback_actions. \<exists>t m g. playback_operation eng a = Some (t, m, g)"
  by (auto simp: playback_actions_def playback_operation_def)

lemma unpack_kwargs_error: "unpack_kwargs v = Inl ex \<Longrightarrow> ex = TypeError"
  by (cases v) (auto split: option.splits)

lemma operation_arguments_error:
  "operation_arguments action params = Inl ex \<Longrightarrow> ex = KeyError \<or> ex = TypeError"
  by (auto simp: operation_arguments_def required_def keywords_from_def
      dest: unpack_kwargs_error split: if_splits option.splits sum.splits)

lemma engine_members:
  "(AudioEngine_component :: pobj component) ''pause'' = Some (Method (def_pass [] 0))"
  "(AudioEngine_component :: pobj component) ''play''
     = Some (Method (def_pass [''start_offset_sec'', ''track_path_to_load''] 0))"
  "(AudioEngine_component :: pobj component) ''play_track_at_playlist_index''
     = Some (Method (def_pass [''index_in_current_playlist''] 1))"
  by (simp_all add: AudioEngine_component_def)

text \<open>
  C8, as the code has it. With an audio engine registered, \<^verbatim>\<open>request_playback_action\<close>
  knows exactly the eighteen names of \<open>playback_actions\<close>. For every other name it calls
  nothing and ends with \<^verbatim>\<open>success\<close> False and the message "Unknown playback action".
  Every name it knows has its component operation (\<open>playback_operation\<close>) and its
  arguments (\<open>operation_arguments\<close>). When the operation's object has the method and the
  arguments can be evaluated, exactly that method is called once with exactly those
  arguments; \<^verbatim>\<open>success\<close> is True when the call returns, and when it raises the
  exception becomes the error message. Nothing is called when the method is missing
  (no message under a \<^verbatim>\<open>hasattr\<close> guard, "Component missing method" otherwise), when an
  argument cannot be evaluated (a missing key, \<^verbatim>\<open>play_args\<close> that cannot be unpacked), or
  when the member is not callable; then \<^verbatim>\<open>success\<close> is False. In every case the function
  returns, and the pair (\<^verbatim>\<open>success\<close>, \<^verbatim>\<open>err_msg\<close>) is what the caller's callback is
  scheduled with.
\<close>

theorem request_playback_action_dispatch:
  assumes "audio_engine_ref h = Some eng" and "r = request_playback_action h action params cb"
  shows "(action \<notin> set playback_actions \<longrightarrow>
            \<not> success r \<and> err_msg r = Some (UnknownAction action) \<and> calls r = [])
       \<and> (action \<in> set playback_actions \<longrightarrow> (\<exists>t m g. playback_operation eng action = Some (t, m, g)))
       \<and> (playback_operation eng action = Some (t, m, g) \<longrightarrow>
            (case operation_member h eng t m of
               None \<Rightarrow>
                 calls r = [] \<and> \<not> success r
                 \<and> err_msg r = (if g then None else Some (ComponentMissingMethod action))
             | Some mem \<Rightarrow>
                 (case operation_arguments action params of
                    Inl ex \<Rightarrow>
                      calls r = [] \<and> \<not> success r \<and> err_msg r = Some (ErrorExecuting action ex)
                  | Inr (args, kw) \<Rightarrow>
                      (case mem of
                         Data v \<Rightarrow>
                           calls r = [] \<and> \<not> success r
                           \<and> err_msg r = Some (ErrorExecuting action TypeError)
                       | Method f \<Rightarrow>
                           calls r = [(t, m, args, kw)] \<and> success r = (f args kw = None)
                           \<and> err_msg r = map_option (exception_message action) (f args kw)))))
       \<and> reported r = (if cb then Some (success r, err_msg r) else None)"
proof -
  let ?d = "playback_dispatch h eng action params"
  have p1: "\<not> success r \<and> err_msg r = Some (UnknownAction action) \<and> calls r = []"
    if "action \<notin> set playback_actions"
    using dispatch_unknown[OF that, of h eng params] assms
    by (simp add: request_playback_action_def)
  have p2: "\<exists>t m g. playback_operation eng action = Some (t, m, g)"
    if "action \<in> set playback_actions"
    using that operation_known[of eng] by blast
  have p3: "(case operation_member h eng t m of
               None \<Rightarrow>
                 calls r = [] \<and> \<not> success r
                 \<and> err_msg r = (if g then None else Some (ComponentMissingMethod action))
             | Some mem \<Rightarrow>
                 (case operation_arguments action params of
                    Inl ex \<Rightarrow>
                      calls r = [] \<and> \<not> success r \<and> err_msg r = Some (ErrorExecuting action ex)
                  | Inr (args, kw) \<Rightarrow>
                      (case mem of
                         Data v \<Rightarrow>
                           calls r = [] \<and> \<not> success r
                           \<and> err_msg r = Some (ErrorExecuting action TypeError)
                       | Method f \<Rightarrow>
                           calls r = [(t, m, args, kw)] \<and> success r = (f args kw = None)
                           \<and> err_msg r = map_option (exception_message action) (f args kw))))"
    if op: "playback_operation eng action = Some (t, m, g)"
  proof -
    from op operation_unknown[of action eng] have "action \<in> set playback_actions" by auto
    with op dispatch_table[of eng h params]
    have d: "?d = operation_outcome t m g (operation_member h eng t m)
                    (operation_arguments action params)"
      by blast
    show ?thesis
    proof (cases "operation_member h eng t m")
      case None
      with d assms show ?thesis
        by (simp add: request_playback_action_def operation_outcome_def exception_message_def)
    next
      case (Some mem)
      show ?thesis
      proof (cases "operation_arguments action params")
        case (Inl ex)
        from operation_arguments_error[OF Inl] have "ex \<noteq> AttributeError" by auto
        with d assms Some Inl show ?thesis
          by (simp add: request_playback_action_def operation_outcome_def exception_message_def)
      next
        case (Inr a)
        obtain args kw where a: "a = (args, kw)" by (cases a)
        show ?thesis
        proof (cases mem)
          case (Data v)
          with d assms Some Inr a show ?thesis
            by (simp add: request_playback_action_def operation_outcome_def exception_message_def)
        next
          case (Method f)
          with d assms Some Inr a show ?thesis
            by (cases "f args kw")
               (simp_all add: request_playback_action_def operation_outcome_def)
        qed
      qed
    qed
  qed
  have p4: "reported r = (if cb then Some (success r, err_msg r) else None)"
  proof -
    obtain cs res where d: "?d = (cs, res)" by (cases ?d)
    show ?thesis
    proof (cases res)
      case (Inl ex)
      with d assms show ?thesis by (simp add: request_playback_action_def)
    next
      case (Inr p)
      obtain okf err where p: "p = (okf, err)" by (cases p)
      with d Inr assms show ?thesis by (simp add: request_playback_action_def)
    qed
  qed
  from p1 p2 p3 p4 show ?thesis by blast
qed

theorem request_playback_action_dispatch_witness:
  "calls (request_playback_action
      \<lparr>audio_engine_ref = Some AudioEngine_component, main_player_ui_ref = None,
        status_bar_var = Some ''Ready''\<rparr> ''pause'' Map.empty True) = [(Engine, ''pause'', [], [])]
   \<and> reported (request_playback_action
      \<lparr>audio_engine_ref = Some AudioEngine_component, main_player_ui_ref = None,
        status_bar_var = Some ''Ready''\<rparr> ''pause'' Map.empty True) = Some (True, None)
   \<and> calls (request_playback_action
      \<lparr>audio_engine_ref = Some AudioEngine_component, main_player_ui_ref = None,
        status_bar_var = Some ''Ready''\<rparr> ''play''
        [''play_args'' \<mapsto> PDict [(PStr ''volume'', PInt 1)]] True)
       = [(Engine, ''play'', [], [(''volume'', PInt 1)])]
   \<and> reported (request_playback_action
      \<lparr>audio_engine_ref = Some AudioEngine_component, main_player_ui_ref = None,
        status_bar_var = Some ''Ready''\<rparr> ''play''
        [''play_args'' \<mapsto> PDict [(PStr ''volume'', PInt 1)]] True)
       = Some (False, Some (ErrorExecuting ''play'' TypeError))
   \<and> reported (request_playback_action
      \<lparr>audio_engine_ref = Some AudioEngine_component, main_player_ui_ref = None,
        status_bar_var = Some ''Ready''\<rparr> ''load'' Map.empty True)
       = Some (False, Some (UnknownAction ''load''))"
proof -
  let ?h = "\<lparr>audio_engine_ref = Some AudioEngine_component, main_player_ui_ref = None,
          status_bar_var = Some ''Ready''\<rparr> :: pobj host_app"
  let ?p = "[''play_args'' \<mapsto> PDict [(PStr ''volume'', PInt 1)]]"
  have e: "audio_engine_ref ?h = Some AudioEngine_component" by simp
  have a: "''pause'' \<in> set playback_actions" "''play'' \<in> set playback_actions"
    "''load'' \<notin> set playback_actions"
    by (simp_all add: playback_actions_def)
  have o: "playback_operation (AudioEngine_component :: pobj component) ''pause''
             = Some (Engine, ''pause'', False)"
    "playback_operation (AudioEngine_component :: pobj component) ''play''
             = Some (Engine, ''play'', False)"
    by (simp_all add: playback_operation_def)
  have g: "operation_arguments ''pause'' Map.empty = Inr ([], [])"
    "operation_arguments ''play'' ?p = Inr ([], [(''volume'', PInt 1)])"
    by (simp_all add: operation_arguments_def keywords_from_def param_or_def)
  have b: "def_pass [] 0 ([] :: pobj list) [] = None"
    "def_pass [''start_offset_sec'', ''track_path_to_load''] 0 ([] :: pobj list)
       [(''volume'', PInt 1)] = Some TypeError"
    by (simp_all add: def_pass_def)
  have w1: "calls (request_playback_action ?h ''pause'' Map.empty True) = [(Engine, ''pause'', [], [])]
    \<and> reported (request_playback_action ?h ''pause'' Map.empty True) = Some (True, None)"
    using request_playback_action_dispatch
      [where action = "''pause''" and t = Engine and m = "''pause''" and g = False
         and params = Map.empty and cb = True, OF e refl] o g b
    by (simp add: operation_member_def engine_members)
  have w2: "calls (request_playback_action ?h ''play'' ?p True)
       = [(Engine, ''play'', [], [(''volume'', PInt 1)])]
    \<and> reported (request_playback_action ?h ''play'' ?p True)
       = Some (False, Some (ErrorExecuting ''play'' TypeError))"
    using request_playback_action_dispatch
      [where action = "''play''" and t = Engine and m = "''play''" and g = False
         and params = ?p and cb = True, OF e refl] o g b
    by (simp add: operation_member_def engine_members exception_message_def)
  have w3: "reported (request_playback_action ?h ''load'' Map.empty True)
       = Some (False, Some (UnknownAction ''load''))"
    using request_playback_action_dispatch
      [where action = "''load''" and t = Engine and m = "''pause''" and g = False
         and params = Map.empty and cb = True, OF e refl] a
    by simp
  from w1 w2 w3 show ?thesis by simp
qed

text \<open>
  C8 as stated lists \<^verbatim>\<open>load\<close> among the accepted actions and has every name outside
  its list fail. On the engine of the source \<^verbatim>\<open>load\<close> is an unknown action, and
  \<^verbatim>\<open>play_track_at_playlist_index\<close>, which is not in the claim's list, succeeds.
\<close>

theorem request_playback_action_names_counterexample:
  "success (request_playback_action
      \<lparr>audio_engine_ref = Some AudioEngine_component, main_player_ui_ref = None,
        status_bar_var = None\<rparr> ''load'' Map.empty True) = False
   \<and> err_msg (request_playback_action
      \<lparr>audio_engine_ref = Some AudioEngine_component, main_player_ui_ref = None,
        status_bar_var = None\<rparr> ''load'' Map.empty True)
       = Some (UnknownAction ''load'')
   \<and> success (request_playback_action
      \<lparr>audio_engine_ref = Some AudioEngine_component, main_player_ui_ref = None,
        status_bar_var = None\<rparr> ''play_track_at_playlist_index''
        [''index'' \<mapsto> PInt 0] True) = True"
  by (simp add: request_playback_action_def playback_dispatch_def engine_members
      hasattr_def then_success_def required_def invoke_def def_pass_def)

end
